theory Spec2Isabelle
  imports Complex_Main "HOL-Library.Sublist"
begin

section \<open>JSON values and the JavaScript runtime\<close>

text \<open>
  The translator of \<^verbatim>\<open>src/openai.ts\<close> moves JSON values between the Claude wire format and
  the OpenAI one. A JSON value is a tree; a number is the rational its literal denotes (the
  rounding to a double is not modelled).
\<close>

datatype json =
    JNull
  | JBool bool
  | JNumber rat
  | JString string
  | JArray "json list"
  | JObject "(string \<times> json) list"

text \<open>What the code can throw: \<^verbatim>\<open>JSON.parse\<close> and \<^verbatim>\<open>Response.json()\<close> raise a SyntaxError.\<close>

datatype error = SyntaxError

text \<open>
  \<^verbatim>\<open>JSON.parse\<close> and \<^verbatim>\<open>JSON.stringify\<close> belong to the runtime, not to the repository: every
  function below that calls them takes them as the parameters \<open>parse\<close> (with \<open>None\<close> for a
  thrown SyntaxError) and \<open>stringify\<close>, and every general theorem holds for all of them.
  At concrete inputs the parameters are instantiated with the reference functions of this
  section: \<open>JSON_parse\<close> reads the grammar of ECMA-404 (escapes of the form
  \<^verbatim>\<open>\uXXXX\<close> are outside the fragment it accepts), \<open>JSON_stringify\<close> writes a value back
  without insignificant whitespace.
\<close>

definition is_ws :: "char \<Rightarrow> bool" where
  "is_ws c = (c = CHR '' '' \<or> c = CHR 0x09 \<or> c = CHR 0x0A \<or> c = CHR 0x0D)"

definition is_digit :: "char \<Rightarrow> bool" where
  "is_digit c = (48 \<le> (of_char c :: nat) \<and> (of_char c :: nat) \<le> 57)"

definition digits_value :: "string \<Rightarrow> nat" where
  "digits_value ds = foldl (\<lambda>n c. 10 * n + (of_char c - 48)) 0 ds"

definition unescape :: "char \<Rightarrow> char option" where
  "unescape e =
     (if e = CHR 0x22 \<or> e = CHR 0x5C \<or> e = CHR ''/'' then Some e
      else if e = CHR ''b'' then Some (CHR 0x08)
      else if e = CHR ''f'' then Some (CHR 0x0C)
      else if e = CHR ''n'' then Some (CHR 0x0A)
      else if e = CHR ''r'' then Some (CHR 0x0D)
      else if e = CHR ''t'' then Some (CHR 0x09)
      else None)"

text \<open>The characters of a string literal, read after its opening quote.\<close>

fun parse_chars :: "string \<Rightarrow> string \<Rightarrow> (string \<times> string) option" where
  "parse_chars acc [] = None"
| "parse_chars acc [c] = (if c = CHR 0x22 then Some (acc, []) else None)"
| "parse_chars acc (c # e # cs) =
     (if c = CHR 0x22 then Some (acc, e # cs)
      else if c = CHR 0x5C then
        (case unescape e of None \<Rightarrow> None | Some d \<Rightarrow> parse_chars (acc @ [d]) cs)
      else if (of_char c :: nat) < 32 then None
      else parse_chars (acc @ [c]) (e # cs))"

definition parse_sign :: "string \<Rightarrow> bool \<times> string" where
  "parse_sign s =
     (case s of [] \<Rightarrow> (False, s) | c # cs \<Rightarrow> if c = CHR ''-'' then (True, cs) else (False, s))"

definition parse_fraction :: "string \<Rightarrow> (string \<times> string) option" where
  "parse_fraction s =
     (case s of
        [] \<Rightarrow> Some ([], s)
      | c # cs \<Rightarrow>
          if c = CHR ''.'' then
            (if takeWhile is_digit cs = [] then None
             else Some (takeWhile is_digit cs, dropWhile is_digit cs))
          else Some ([], s))"

definition parse_exponent :: "string \<Rightarrow> (int \<times> string) option" where
  "parse_exponent s =
     (case s of
        [] \<Rightarrow> Some (0, s)
      | c # cs \<Rightarrow>
          if c = CHR ''e'' \<or> c = CHR ''E'' then
            (let (neg, ds) =
                   (case cs of
                      [] \<Rightarrow> (False, cs)
                    | d # r \<Rightarrow>
                        if d = CHR ''-'' then (True, r)
                        else if d = CHR ''+'' then (False, r)
                        else (False, cs))
             in if takeWhile is_digit ds = [] then None
                else Some ((if neg then - 1 else 1) * int (digits_value (takeWhile is_digit ds)),
                           dropWhile is_digit ds))
          else Some (0, s))"

definition parse_number :: "string \<Rightarrow> (rat \<times> string) option" where
  "parse_number s =
     (let (neg, s1) = parse_sign s;
          ds = takeWhile is_digit s1
      in if ds = [] \<or> (1 < length ds \<and> hd ds = CHR ''0'') then None
         else
          (case parse_fraction (dropWhile is_digit s1) of
             None \<Rightarrow> None
           | Some (fs, s2) \<Rightarrow>
              (case parse_exponent s2 of
                 None \<Rightarrow> None
               | Some (e, s3) \<Rightarrow>
                  Some ((if neg then - 1 else 1)
                          * (of_nat (digits_value ds) + of_nat (digits_value fs) / 10 ^ length fs)
                          * (if 0 \<le> e then 10 ^ nat e else 1 / 10 ^ nat (- e)),
                        s3))))"

text \<open>
  Recursive descent over values, array elements and object members. The first argument
  bounds the depth of the descent; \<open>JSON_parse\<close> starts it high enough for its input.
\<close>

fun parse_value :: "nat \<Rightarrow> string \<Rightarrow> (json \<times> string) option"
and parse_elements :: "nat \<Rightarrow> json list \<Rightarrow> string \<Rightarrow> (json \<times> string) option"
and parse_members :: "nat \<Rightarrow> (string \<times> json) list \<Rightarrow> string \<Rightarrow> (json \<times> string) option"
where
  "parse_value 0 s = None"
| "parse_value (Suc n) s =
     (case dropWhile is_ws s of
        [] \<Rightarrow> None
      | c # cs \<Rightarrow>
          if c = CHR ''{'' then
            (case dropWhile is_ws cs of
               [] \<Rightarrow> None
             | d # r \<Rightarrow> if d = CHR ''}'' then Some (JObject [], r) else parse_members n [] cs)
          else if c = CHR ''['' then
            (case dropWhile is_ws cs of
               [] \<Rightarrow> None
             | d # r \<Rightarrow> if d = CHR '']'' then Some (JArray [], r) else parse_elements n [] cs)
          else if c = CHR 0x22 then
            (case parse_chars [] cs of None \<Rightarrow> None | Some (str, r) \<Rightarrow> Some (JString str, r))
          else if prefix ''true'' (c # cs) then Some (JBool True, drop 4 (c # cs))
          else if prefix ''false'' (c # cs) then Some (JBool False, drop 5 (c # cs))
          else if prefix ''null'' (c # cs) then Some (JNull, drop 4 (c # cs))
          else (case parse_number (c # cs) of None \<Rightarrow> None | Some (q, r) \<Rightarrow> Some (JNumber q, r)))"
| "parse_elements 0 acc s = None"
| "parse_elements (Suc n) acc s =
     (case parse_value n s of
        None \<Rightarrow> None
      | Some (v, r) \<Rightarrow>
         (case dropWhile is_ws r of
            [] \<Rightarrow> None
          | c # r' \<Rightarrow>
              if c = CHR '','' then parse_elements n (acc @ [v]) r'
              else if c = CHR '']'' then Some (JArray (acc @ [v]), r')
              else None))"
| "parse_members 0 acc s = None"
| "parse_members (Suc n) acc s =
     (case dropWhile is_ws s of
        [] \<Rightarrow> None
      | c # cs \<Rightarrow>
          if c = CHR 0x22 then
            (case parse_chars [] cs of
               None \<Rightarrow> None
             | Some (k, r) \<Rightarrow>
                (case dropWhile is_ws r of
                   [] \<Rightarrow> None
                 | c2 # r2 \<Rightarrow>
                     if c2 = CHR '':'' then
                       (case parse_value n r2 of
                          None \<Rightarrow> None
                        | Some (v, r3) \<Rightarrow>
                           (case dropWhile is_ws r3 of
                              [] \<Rightarrow> None
                            | c3 # r4 \<Rightarrow>
                                if c3 = CHR '','' then parse_members n (acc @ [(k, v)]) r4
                                else if c3 = CHR ''}'' then Some (JObject (acc @ [(k, v)]), r4)
                                else None))
                     else None))
          else None)"

definition JSON_parse :: "string \<Rightarrow> json option" where
  "JSON_parse s =
     (case parse_value (2 * length s + 2) s of
        None \<Rightarrow> None
      | Some (v, r) \<Rightarrow> if dropWhile is_ws r = [] then Some v else None)"

text \<open>\<^verbatim>\<open>Array.prototype.join\<close>.\<close>

fun join :: "string \<Rightarrow> string list \<Rightarrow> string" where
  "join sep [] = []"
| "join sep [x] = x"
| "join sep (x # y # ys) = x @ sep @ join sep (y # ys)"

fun digits :: "nat \<Rightarrow> string" where
  "digits n =
     (if n < 10 then [''0123456789'' ! n]
      else digits (n div 10) @ [''0123456789'' ! (n mod 10)])"

definition escape_char :: "char \<Rightarrow> string" where
  "escape_char c =
     (if c = CHR 0x22 then [CHR 0x5C, CHR 0x22]
      else if c = CHR 0x5C then [CHR 0x5C, CHR 0x5C]
      else if c = CHR 0x08 then [CHR 0x5C, CHR ''b'']
      else if c = CHR 0x0C then [CHR 0x5C, CHR ''f'']
      else if c = CHR 0x0A then [CHR 0x5C, CHR ''n'']
      else if c = CHR 0x0D then [CHR 0x5C, CHR ''r'']
      else if c = CHR 0x09 then [CHR 0x5C, CHR ''t'']
      else if (of_char c :: nat) < 32 then
        [CHR 0x5C, CHR ''u'', CHR ''0'', CHR ''0'',
         ''0123456789abcdef'' ! (of_char c div 16), ''0123456789abcdef'' ! (of_char c mod 16)]
      else [c])"

definition quote :: "string \<Rightarrow> string" where
  "quote s = [CHR 0x22] @ concat (map escape_char s) @ [CHR 0x22]"

text \<open>
  A number is written as its integer part and, when it is not an integer, up to seventeen
  digits of its fraction.
\<close>

fun fraction_digits :: "nat \<Rightarrow> nat \<Rightarrow> nat \<Rightarrow> string" where
  "fraction_digits 0 r d = []"
| "fraction_digits (Suc k) r d =
     (if r = 0 then []
      else ''0123456789'' ! ((10 * r) div d) # fraction_digits k ((10 * r) mod d) d)"

definition number_string :: "rat \<Rightarrow> string" where
  "number_string q =
     (let (a, b) = quotient_of q;
          whole = nat \<bar>a\<bar> div nat b;
          rest = nat \<bar>a\<bar> mod nat b
      in (if a < 0 then ''-'' else []) @ digits whole
         @ (if rest = 0 then [] else ''.'' @ fraction_digits 17 rest (nat b)))"

fun JSON_stringify :: "json \<Rightarrow> string" where
  "JSON_stringify JNull = ''null''"
| "JSON_stringify (JBool b) = (if b then ''true'' else ''false'')"
| "JSON_stringify (JNumber q) = number_string q"
| "JSON_stringify (JString s) = quote s"
| "JSON_stringify (JArray vs) = ''['' @ join '','' (map JSON_stringify vs) @ '']''"
| "JSON_stringify (JObject kvs) =
     ''{'' @ join '','' (map (\<lambda>(k, v). quote k @ '':'' @ JSON_stringify v) kvs) @ ''}''"

text \<open>\<^verbatim>\<open>String.prototype.includes\<close>: some suffix of the string starts with the pattern.\<close>

fun str_includes :: "string \<Rightarrow> string \<Rightarrow> bool" where
  "str_includes [] pat = (pat = [])"
| "str_includes (c # cs) pat = (prefix pat (c # cs) \<or> str_includes cs pat)"

section \<open>The Claude side: messages and content blocks\<close>

text \<open>
  The type declarations of \<^verbatim>\<open>types.ts\<close> are read off the fields the translator uses. A
  message's content is a plain string or a list of blocks. The content of a tool result is
  a string or any other JSON value; \<^verbatim>\<open>is_error\<close> is optional and compared with
  \<^verbatim>\<open>=== true\<close>, so it is an optional boolean here.
\<close>

datatype ResultContent = ResultText string | ResultData json

datatype ClaudeContent =
    Text string
  | ToolUse string string json
  | ToolResult string ResultContent "bool option"

text \<open>
  \<open>ToolUse id name input\<close> and \<open>ToolResult tool_use_id content is_error\<close>, in the order of
  the fields of the Claude wire format.
\<close>

datatype MessageContent = Plain string | Blocks "ClaudeContent list"

record ClaudeMessage =
  role :: string
  content :: MessageContent

text \<open>
  The blocks the loops of the translator run over: they skip a message whose content is a
  string (\<^verbatim>\<open>typeof message.content !== 'string'\<close>).
\<close>

definition contentBlocks :: "ClaudeMessage \<Rightarrow> ClaudeContent list" where
  "contentBlocks message = (case content message of Plain _ \<Rightarrow> [] | Blocks cs \<Rightarrow> cs)"

section \<open>The reconciler: \<^verbatim>\<open>cleanIncompleteToolCalls\<close>\<close>

text \<open>
  The first loop collects the \<^verbatim>\<open>tool_use_id\<close> of every tool result of the conversation in
  a set.
\<close>

definition addToolResultId :: "string set \<Rightarrow> ClaudeContent \<Rightarrow> string set" where
  "addToolResultId ids c = (case c of ToolResult tid _ _ \<Rightarrow> insert tid ids | _ \<Rightarrow> ids)"

definition toolResultIds :: "ClaudeMessage list \<Rightarrow> string set" where
  "toolResultIds messages =
     foldl (\<lambda>ids message.
              case content message of
                Plain _ \<Rightarrow> ids
              | Blocks cs \<Rightarrow> foldl addToolResultId ids cs)
       {} messages"

definition isToolUse :: "ClaudeContent \<Rightarrow> bool" where
  "isToolUse c = (case c of ToolUse _ _ _ \<Rightarrow> True | _ \<Rightarrow> False)"

text \<open>
  The predicate of the filter: a string message stays, a message without a tool use stays,
  and a message with a tool use stays when none of its tool uses is incomplete.
\<close>

definition keepMessage :: "string set \<Rightarrow> ClaudeMessage \<Rightarrow> bool" where
  "keepMessage ids message =
     (case content message of
        Plain _ \<Rightarrow> True
      | Blocks cs \<Rightarrow>
          (let hasToolUse = list_ex isToolUse cs in
           if \<not> hasToolUse then True
           else
             (let incompleteToolUses =
                    filter (\<lambda>c. case c of ToolUse i _ _ \<Rightarrow> i \<notin> ids | _ \<Rightarrow> False) cs
              in if 0 < length incompleteToolUses then False else True)))"

definition cleanIncompleteToolCalls :: "ClaudeMessage list \<Rightarrow> ClaudeMessage list" where
  "cleanIncompleteToolCalls messages = filter (keepMessage (toolResultIds messages)) messages"

section \<open>The request mapper: \<^verbatim>\<open>convertMessages\<close>\<close>

record OpenAIFunction =
  name :: string
  arguments :: string

record OpenAIToolCall =
  call_id :: string
  call_type :: string
  call_function :: OpenAIFunction

record OpenAIMessage =
  msg_role :: string
  msg_content :: "string option"
  tool_calls :: "OpenAIToolCall list option"
  tool_call_id :: "string option"

text \<open>
  The first pass of \<^verbatim>\<open>convertMessages\<close> collects the ids of the tool results that are not
  errors, over the messages as they came in (before cleaning).
\<close>

definition addSuccessfulToolResultId :: "string set \<Rightarrow> ClaudeContent \<Rightarrow> string set" where
  "addSuccessfulToolResultId ids c =
     (case c of
        ToolResult tid _ e \<Rightarrow>
          (let isError = (e = Some True) in if \<not> isError then insert tid ids else ids)
      | _ \<Rightarrow> ids)"

definition successfulToolResultIds :: "ClaudeMessage list \<Rightarrow> string set" where
  "successfulToolResultIds claudeMessages =
     foldl (\<lambda>ids message.
              case content message of
                Plain _ \<Rightarrow> ids
              | Blocks cs \<Rightarrow> foldl addSuccessfulToolResultId ids cs)
       {} claudeMessages"

text \<open>
  \<^verbatim>\<open>typeof content.content === 'string' ? content.content : JSON.stringify(content.content)\<close>
\<close>

definition resultString :: "(json \<Rightarrow> string) \<Rightarrow> ResultContent \<Rightarrow> string" where
  "resultString stringify c = (case c of ResultText s \<Rightarrow> s | ResultData j \<Rightarrow> stringify j)"

text \<open>\<^verbatim>\<open>message.role === 'assistant' ? 'assistant' : 'user'\<close>\<close>

definition providerRole :: "string \<Rightarrow> string" where
  "providerRole r = (if r = ''assistant'' then ''assistant'' else ''user'')"

definition interruptedLine :: "string \<Rightarrow> string" where
  "interruptedLine n = ''[User interrupted: '' @ n @ '' operation was cancelled by user]''"

definition feedbackLine :: string where
  "feedbackLine = ''[User provided feedback: The previous action was interrupted. Please pay attention to the new user input and adjust your approach accordingly.]''"

definition errorLine :: "string \<Rightarrow> string" where
  "errorLine errorContent = ''[Tool execution error: '' @ errorContent @ '']''"

text \<open>
  One round of the loop over the blocks of a message. The state is the three arrays
  \<^verbatim>\<open>textContents\<close>, \<^verbatim>\<open>toolCalls\<close> and \<^verbatim>\<open>toolResults\<close>; \<open>successful\<close> is the set
  \<^verbatim>\<open>successfulToolResultIds\<close>. (\<^verbatim>\<open>toolCallMap\<close> is written and never read, so it is left out.)
\<close>

type_synonym blockState = "string list \<times> OpenAIToolCall list \<times> (string \<times> string) list"

fun convertContent ::
  "(json \<Rightarrow> string) \<Rightarrow> string set \<Rightarrow> blockState \<Rightarrow> ClaudeContent \<Rightarrow> blockState"
where
  "convertContent stringify successful (textContents, toolCalls, toolResults) (Text t) =
     (textContents @ [t], toolCalls, toolResults)"
| "convertContent stringify successful (textContents, toolCalls, toolResults) (ToolUse i n inp) =
     (if i \<in> successful then
        (textContents,
         toolCalls @ [\<lparr>call_id = i, call_type = ''function'',
                       call_function = \<lparr>name = n, arguments = stringify inp\<rparr>\<rparr>],
         toolResults)
      else (textContents @ [interruptedLine n], toolCalls, toolResults))"
| "convertContent stringify successful (textContents, toolCalls, toolResults) (ToolResult tid c e) =
     (let isError = (e = Some True) in
      if \<not> isError then
        (textContents, toolCalls, toolResults @ [(tid, resultString stringify c)])
      else
        (let errorContent = resultString stringify c in
         if str_includes errorContent ''Interrupted by user''
         then (textContents @ [feedbackLine], toolCalls, toolResults)
         else (textContents @ [errorLine errorContent], toolCalls, toolResults)))"

definition toolMessage :: "string \<times> string \<Rightarrow> OpenAIMessage" where
  "toolMessage tr =
     \<lparr>msg_role = ''tool'', msg_content = Some (snd tr), tool_calls = None,
      tool_call_id = Some (fst tr)\<rparr>"

text \<open>What one round of the loop over the cleaned messages pushes onto \<^verbatim>\<open>openaiMessages\<close>.\<close>

definition convertMessage ::
  "(json \<Rightarrow> string) \<Rightarrow> string set \<Rightarrow> ClaudeMessage \<Rightarrow> OpenAIMessage list"
where
  "convertMessage stringify successful message =
     (case content message of
        Plain s \<Rightarrow>
          [\<lparr>msg_role = providerRole (role message), msg_content = Some s, tool_calls = None,
            tool_call_id = None\<rparr>]
      | Blocks cs \<Rightarrow>
          (case foldl (convertContent stringify successful) ([], [], []) cs of
             (textContents, toolCalls, toolResults) \<Rightarrow>
               (if 0 < length textContents \<or> 0 < length toolCalls then
                  [\<lparr>msg_role = providerRole (role message),
                    msg_content =
                      (if 0 < length textContents then Some (join [CHR 0x0A] textContents)
                       else None),
                    tool_calls = (if 0 < length toolCalls then Some toolCalls else None),
                    tool_call_id = None\<rparr>]
                else [])
               @ map toolMessage toolResults))"

definition convertMessages :: "(json \<Rightarrow> string) \<Rightarrow> ClaudeMessage list \<Rightarrow> OpenAIMessage list" where
  "convertMessages stringify claudeMessages =
     (let cleanedMessages = cleanIncompleteToolCalls claudeMessages;
          successful = successfulToolResultIds claudeMessages
      in foldl (\<lambda>openaiMessages message. openaiMessages @ convertMessage stringify successful message)
           [] cleanedMessages)"

text \<open>The tool calls a provider message carries.\<close>

definition toolCallsOf :: "OpenAIMessage \<Rightarrow> OpenAIToolCall list" where
  "toolCallsOf m = (case tool_calls m of None \<Rightarrow> [] | Some tcs \<Rightarrow> tcs)"

text \<open>
  The request mapper in the words of the specification (section 4.2): what each block adds
  to the textual accumulation of its message. A text block adds its text; a tool use
  outside the successful set adds the synthetic interruption line; an erroring tool result
  adds the interruption notice or the error line.
\<close>

fun textLines :: "(json \<Rightarrow> string) \<Rightarrow> string set \<Rightarrow> ClaudeContent \<Rightarrow> string list" where
  "textLines stringify successful (Text t) = [t]"
| "textLines stringify successful (ToolUse i n inp) =
     (if i \<in> successful then [] else [interruptedLine n])"
| "textLines stringify successful (ToolResult tid c e) =
     (if e = Some True then
        (if str_includes (resultString stringify c) ''Interrupted by user'' then [feedbackLine]
         else [errorLine (resultString stringify c)])
      else [])"

section \<open>The response mapper, non-streaming: \<^verbatim>\<open>convertNormalResponse\<close>\<close>

record OpenAIResponseMessage =
  resp_content :: "string option"
  resp_tool_calls :: "OpenAIToolCall list option"

record OpenAIChoice =
  message :: OpenAIResponseMessage
  finish_reason :: "string option"

record OpenAIUsage =
  prompt_tokens :: int
  completion_tokens :: int

record OpenAIResponse =
  choices :: "OpenAIChoice list option"
  usage :: "OpenAIUsage option"

datatype StopReason = end_turn | max_tokens | tool_use

record ClaudeUsage =
  input_tokens :: int
  output_tokens :: int

record ClaudeResponse =
  response_id :: string
  response_type :: string
  response_role :: string
  response_content :: "ClaudeContent list"
  stop_reason :: "StopReason option"
  response_usage :: "ClaudeUsage option"

text \<open>
  An optional field is \<open>None\<close> when it is absent, undefined or null. JavaScript takes a
  string for true when it is there and not empty; an array, empty or not, is always true.
\<close>

definition truthyString :: "string option \<Rightarrow> string option" where
  "truthyString x = (case x of None \<Rightarrow> None | Some s \<Rightarrow> if 0 < length s then Some s else None)"

text \<open>\<^verbatim>\<open>argsString.replace(/'/g, '"')\<close>\<close>

definition replaceSingleQuotes :: "string \<Rightarrow> string" where
  "replaceSingleQuotes s = map (\<lambda>c. if c = CHR 0x27 then CHR 0x22 else c) s"

text \<open>
  The nested \<^verbatim>\<open>try\<close> blocks that decode the arguments of one tool call. Every
  \<^verbatim>\<open>catch\<close> ends in a value, so the result is a JSON value and never an error.
\<close>

definition parseToolArguments :: "(string \<Rightarrow> json option) \<Rightarrow> string \<Rightarrow> json" where
  "parseToolArguments parse rawArguments =
     (let argsString = (if 0 < length rawArguments then rawArguments else ''{}'') in
      case parse argsString of
        Some input \<Rightarrow> input
      | None \<Rightarrow>
         (case parse (replaceSingleQuotes argsString) of
            Some input \<Rightarrow> input
          | None \<Rightarrow> JObject []))"

definition toolUseOf :: "(string \<Rightarrow> json option) \<Rightarrow> OpenAIToolCall \<Rightarrow> ClaudeContent" where
  "toolUseOf parse toolCall =
     ToolUse (call_id toolCall) (name (call_function toolCall))
       (parseToolArguments parse (arguments (call_function toolCall)))"

text \<open>
  The body of \<^verbatim>\<open>convertNormalResponse\<close> between \<^verbatim>\<open>openaiResponse.json()\<close> and
  \<^verbatim>\<open>JSON.stringify(claudeResponse)\<close>; \<open>newId\<close> is what \<^verbatim>\<open>utils.generateId()\<close> returned.
\<close>

definition convertNormalData ::
  "(string \<Rightarrow> json option) \<Rightarrow> string \<Rightarrow> OpenAIResponse \<Rightarrow> ClaudeResponse"
where
  "convertNormalData parse newId openaiData =
     (let claudeResponse =
            \<lparr>response_id = newId, response_type = ''message'', response_role = ''assistant'',
             response_content = [], stop_reason = None, response_usage = None\<rparr>;
          claudeResponse =
            (case choices openaiData of
               None \<Rightarrow> claudeResponse
             | Some [] \<Rightarrow> claudeResponse
             | Some (choice # _) \<Rightarrow>
                (let message = message choice;
                     claudeResponse =
                       (case truthyString (resp_content message) of
                          Some t \<Rightarrow>
                            claudeResponse
                              \<lparr>response_content := response_content claudeResponse @ [Text t]\<rparr>
                        | None \<Rightarrow> claudeResponse)
                 in case resp_tool_calls message of
                      Some toolCalls \<Rightarrow>
                        claudeResponse
                          \<lparr>response_content :=
                             foldl (\<lambda>blocks toolCall. blocks @ [toolUseOf parse toolCall])
                               (response_content claudeResponse) toolCalls,
                           stop_reason := Some tool_use\<rparr>
                    | None \<Rightarrow>
                        if finish_reason choice = Some ''length''
                        then claudeResponse\<lparr>stop_reason := Some max_tokens\<rparr>
                        else claudeResponse\<lparr>stop_reason := Some end_turn\<rparr>))
      in case usage openaiData of
           Some u \<Rightarrow>
             claudeResponse
               \<lparr>response_usage :=
                  Some \<lparr>input_tokens = prompt_tokens u, output_tokens = completion_tokens u\<rparr>\<rparr>
         | None \<Rightarrow> claudeResponse)"

section \<open>The response mapper, streaming: \<^verbatim>\<open>convertStreamResponse\<close>\<close>

record FunctionDelta =
  fn_name :: "string option"
  fn_arguments :: "string option"

record ToolCallDelta =
  tc_function :: "FunctionDelta option"

record Delta =
  delta_content :: "string option"
  delta_tool_calls :: "ToolCallDelta list option"

record StreamChoice =
  delta :: Delta

record OpenAIStreamResponse =
  stream_choices :: "StreamChoice list option"

text \<open>
  Modelled from the spec: \<^verbatim>\<open>utils.processTextPart\<close> and \<^verbatim>\<open>utils.processToolUsePart\<close> are
  not among the sources. Section 4.4 of the specification says what they emit: for
  incremental text a canonical content block delta addressed to the text block index, for a
  tool call a canonical tool-use delta addressed to the tool block index. An event records
  its kind, the index it is addressed to and its payload.
\<close>

datatype event = TextDelta nat string | ToolUseDelta nat string json

definition processTextPart :: "string \<Rightarrow> nat \<Rightarrow> event list" where
  "processTextPart t index = [TextDelta index t]"

definition processToolUsePart :: "string \<times> json \<Rightarrow> nat \<Rightarrow> event list" where
  "processToolUsePart call index = [ToolUseDelta index (fst call) (snd call)]"

text \<open>What the callback of \<^verbatim>\<open>convertStreamResponse\<close> returns for one frame.\<close>

record lineResult =
  events :: "event list"
  textBlockIndex :: nat
  toolUseBlockIndex :: nat

text \<open>
  The loop over \<^verbatim>\<open>delta.tool_calls\<close>. A tool call is emitted when its function has a name
  and arguments that JavaScript takes for true. \<^verbatim>\<open>JSON.parse\<close> of the arguments stands in
  no \<^verbatim>\<open>try\<close> block here: when it throws, the callback throws.
\<close>

fun convertToolCallDeltas ::
  "(string \<Rightarrow> json option) \<Rightarrow> ToolCallDelta list \<Rightarrow> event list \<times> nat \<Rightarrow> error + event list \<times> nat"
where
  "convertToolCallDeltas parse [] (evs, currentToolIndex) = Inr (evs, currentToolIndex)"
| "convertToolCallDeltas parse (toolCall # rest) (evs, currentToolIndex) =
     (case tc_function toolCall of
        None \<Rightarrow> convertToolCallDeltas parse rest (evs, currentToolIndex)
      | Some f \<Rightarrow>
         (case truthyString (fn_name f) of
            None \<Rightarrow> convertToolCallDeltas parse rest (evs, currentToolIndex)
          | Some n \<Rightarrow>
             (case truthyString (fn_arguments f) of
                None \<Rightarrow> convertToolCallDeltas parse rest (evs, currentToolIndex)
              | Some a \<Rightarrow>
                 (case parse a of
                    None \<Rightarrow> Inl SyntaxError
                  | Some args \<Rightarrow>
                      convertToolCallDeltas parse rest
                        (evs @ processToolUsePart (n, args) currentToolIndex,
                         currentToolIndex + 1)))))"

text \<open>
  The callback handed to \<^verbatim>\<open>utils.processProviderStream\<close>, on a frame that
  \<^verbatim>\<open>JSON.parse(jsonStr)\<close> has decoded. \<open>Inr None\<close> is the callback's \<^verbatim>\<open>return null\<close>.
\<close>

definition convertStreamLine ::
  "(string \<Rightarrow> json option) \<Rightarrow> OpenAIStreamResponse \<Rightarrow> nat \<Rightarrow> nat \<Rightarrow> error + lineResult option"
where
  "convertStreamLine parse openaiData textBlockIndex0 toolUseBlockIndex0 =
     (case stream_choices openaiData of
        None \<Rightarrow> Inr None
      | Some [] \<Rightarrow> Inr None
      | Some (choice # _) \<Rightarrow>
         (let (evs, currentTextIndex) =
                (case truthyString (delta_content (delta choice)) of
                   Some t \<Rightarrow> (processTextPart t textBlockIndex0, textBlockIndex0 + 1)
                 | None \<Rightarrow> ([], textBlockIndex0))
          in case delta_tool_calls (delta choice) of
               None \<Rightarrow>
                 Inr (Some \<lparr>events = evs, textBlockIndex = currentTextIndex,
                            toolUseBlockIndex = toolUseBlockIndex0\<rparr>)
             | Some toolCalls \<Rightarrow>
                (case convertToolCallDeltas parse toolCalls (evs, toolUseBlockIndex0) of
                   Inl e \<Rightarrow> Inl e
                 | Inr (evs', currentToolIndex) \<Rightarrow>
                     Inr (Some \<lparr>events = evs', textBlockIndex = currentTextIndex,
                                toolUseBlockIndex = currentToolIndex\<rparr>))))"

text \<open>
  Modelled from the spec: \<^verbatim>\<open>utils.processProviderStream\<close> is not among the sources. By
  section 4.4 of the specification the translator consumes the frames one at a time, in
  arrival order, emits for each frame the events the callback returns, and threads the
  stream cursor (the two block indices, allocated fresh per response) from one call to
  the next. The specification describes no handler around the callback, so a callback that
  throws ends the run; the events emitted before stay emitted.
\<close>

record streamState =
  emitted :: "event list"
  text_block_index :: nat
  tool_block_index :: nat
  failure :: "error option"

fun processLines ::
  "('f \<Rightarrow> nat \<Rightarrow> nat \<Rightarrow> error + lineResult option) \<Rightarrow> streamState \<Rightarrow> 'f list \<Rightarrow> streamState"
where
  "processLines processLine st [] = st"
| "processLines processLine st (frame # frames) =
     (case failure st of
        Some e \<Rightarrow> st
      | None \<Rightarrow>
         (case processLine frame (text_block_index st) (tool_block_index st) of
            Inl e \<Rightarrow> st\<lparr>failure := Some e\<rparr>
          | Inr None \<Rightarrow> processLines processLine st frames
          | Inr (Some result) \<Rightarrow>
              processLines processLine
                \<lparr>emitted = emitted st @ events result,
                 text_block_index = textBlockIndex result,
                 tool_block_index = toolUseBlockIndex result,
                 failure = None\<rparr>
                frames))"

definition processProviderStream ::
  "('f \<Rightarrow> nat \<Rightarrow> nat \<Rightarrow> error + lineResult option) \<Rightarrow> 'f list \<Rightarrow> streamState"
where
  "processProviderStream processLine frames =
     processLines processLine
       \<lparr>emitted = [], text_block_index = 0, tool_block_index = 0, failure = None\<rparr> frames"

text \<open>\<^verbatim>\<open>convertStreamResponse\<close> on the decoded frames of the provider's stream.\<close>

definition convertStreamFrames ::
  "(string \<Rightarrow> json option) \<Rightarrow> OpenAIStreamResponse list \<Rightarrow> streamState"
where
  "convertStreamFrames parse frames = processProviderStream (convertStreamLine parse) frames"

text \<open>The indices the emitted events are addressed to, per kind, in emission order.\<close>

fun textIndex :: "event \<Rightarrow> nat list" where
  "textIndex (TextDelta i _) = [i]"
| "textIndex (ToolUseDelta _ _ _) = []"

fun toolIndex :: "event \<Rightarrow> nat list" where
  "toolIndex (TextDelta _ _) = []"
| "toolIndex (ToolUseDelta i _ _) = [i]"

section \<open>The entry point: \<^verbatim>\<open>convertToClaudeResponse\<close>\<close>

text \<open>
  A response of the Fetch API, with the header names in lower case as \<^verbatim>\<open>Headers\<close> keeps
  them. \<^verbatim>\<open>Response.ok\<close> holds for the statuses 200 to 299.
\<close>

record Response =
  status :: nat
  headers :: "(string \<times> string) list"
  body :: string

definition ok :: "Response \<Rightarrow> bool" where
  "ok r = (200 \<le> status r \<and> status r \<le> 299)"

text \<open>
  What the translator needs from outside the repository's sources: \<^verbatim>\<open>JSON.parse\<close>, the
  decoding of a buffered body by \<^verbatim>\<open>Response.json()\<close>, the framing of a streamed body into
  the decoded frames that reach the callback, \<^verbatim>\<open>JSON.stringify\<close> of the Claude response and
  the identifier \<^verbatim>\<open>utils.generateId()\<close> returns.
\<close>

record runtime =
  parseJson :: "string \<Rightarrow> json option"
  readJson :: "string \<Rightarrow> OpenAIResponse option"
  readFrames :: "string \<Rightarrow> OpenAIStreamResponse list"
  writeJson :: "ClaudeResponse \<Rightarrow> string"
  generateId :: string

text \<open>
  The translated response: a response object as a whole, or the stream that the driver
  produces (the HTTP envelope of that stream is the driver's and is not modelled).
\<close>

datatype translated = Whole Response | Streamed streamState

definition convertNormalResponse :: "runtime \<Rightarrow> Response \<Rightarrow> error + translated" where
  "convertNormalResponse rt openaiResponse =
     (case readJson rt (body openaiResponse) of
        None \<Rightarrow> Inl SyntaxError
      | Some openaiData \<Rightarrow>
          Inr (Whole
            \<lparr>status = status openaiResponse,
             headers = [(''Content-Type'', ''application/json'')],
             body = writeJson rt (convertNormalData (parseJson rt) (generateId rt) openaiData)\<rparr>))"

definition convertStreamResponse :: "runtime \<Rightarrow> Response \<Rightarrow> error + translated" where
  "convertStreamResponse rt openaiResponse =
     Inr (Streamed (convertStreamFrames (parseJson rt) (readFrames rt (body openaiResponse))))"

definition convertToClaudeResponse :: "runtime \<Rightarrow> Response \<Rightarrow> error + translated" where
  "convertToClaudeResponse rt openaiResponse =
     (if \<not> ok openaiResponse then Inr (Whole openaiResponse)
      else
        (let contentType =
               (case map_of (headers openaiResponse) ''content-type'' of
                  Some v \<Rightarrow> v
                | None \<Rightarrow> []);
             isStream = str_includes contentType ''text/event-stream''
         in if isStream then convertStreamResponse rt openaiResponse
            else convertNormalResponse rt openaiResponse))"

section \<open>Facts about the reconciler and the request mapper\<close>

text \<open>\<open>str_includes\<close> is the substring relation of the library.\<close>

lemma str_includes_sublist: "str_includes s pat \<longleftrightarrow> sublist pat s"
  by (induction s) (auto simp: sublist_Cons_right)

text \<open>The two sets of ids are what the loops collect, block by block.\<close>

lemma foldl_addToolResultId:
  "i \<in> foldl addToolResultId ids0 cs \<longleftrightarrow> i \<in> ids0 \<or> (\<exists>c e. ToolResult i c e \<in> set cs)"
  by (induction cs arbitrary: ids0) (auto simp: addToolResultId_def split: ClaudeContent.splits)

lemma foldl_messages_toolResultIds:
  "i \<in> foldl (\<lambda>ids message.
              case content message of
                Plain _ \<Rightarrow> ids
              | Blocks cs \<Rightarrow> foldl addToolResultId ids cs)
       ids0 ms
     \<longleftrightarrow> i \<in> ids0 \<or> (\<exists>m \<in> set ms. \<exists>c e. ToolResult i c e \<in> set (contentBlocks m))"
  by (induction ms arbitrary: ids0)
     (auto simp: foldl_addToolResultId contentBlocks_def split: MessageContent.splits)

lemma toolResultIds_iff:
  "i \<in> toolResultIds ms \<longleftrightarrow> (\<exists>m \<in> set ms. \<exists>c e. ToolResult i c e \<in> set (contentBlocks m))"
  by (simp add: toolResultIds_def foldl_messages_toolResultIds)

lemma foldl_addSuccessfulToolResultId:
  "i \<in> foldl addSuccessfulToolResultId ids0 cs
     \<longleftrightarrow> i \<in> ids0 \<or> (\<exists>c e. ToolResult i c e \<in> set cs \<and> e \<noteq> Some True)"
  by (induction cs arbitrary: ids0)
     (auto simp: addSuccessfulToolResultId_def split: ClaudeContent.splits)

lemma foldl_messages_successful:
  "i \<in> foldl (\<lambda>ids message.
              case content message of
                Plain _ \<Rightarrow> ids
              | Blocks cs \<Rightarrow> foldl addSuccessfulToolResultId ids cs)
       ids0 ms
     \<longleftrightarrow> i \<in> ids0 \<or> (\<exists>m \<in> set ms. \<exists>c e. ToolResult i c e \<in> set (contentBlocks m) \<and> e \<noteq> Some True)"
  by (induction ms arbitrary: ids0)
     (auto simp: foldl_addSuccessfulToolResultId contentBlocks_def split: MessageContent.splits)

lemma successfulToolResultIds_iff:
  "i \<in> successfulToolResultIds ms \<longleftrightarrow>
     (\<exists>m \<in> set ms. \<exists>c e. ToolResult i c e \<in> set (contentBlocks m) \<and> e \<noteq> Some True)"
  by (simp add: successfulToolResultIds_def foldl_messages_successful)

lemma successful_subset: "successfulToolResultIds ms \<subseteq> toolResultIds ms"
  unfolding subset_iff successfulToolResultIds_iff toolResultIds_iff by blast

text \<open>A message survives the filter exactly when each of its tool uses has a result.\<close>

lemma keepMessage_iff:
  "keepMessage ids m \<longleftrightarrow> (\<forall>i n inp. ToolUse i n inp \<in> set (contentBlocks m) \<longrightarrow> i \<in> ids)"
proof (cases "content m")
  case (Plain s)
  then show ?thesis by (simp add: keepMessage_def contentBlocks_def)
next
  case (Blocks cs)
  have "filter (\<lambda>c. case c of ToolUse i _ _ \<Rightarrow> i \<notin> ids | _ \<Rightarrow> False) cs = []
          \<longleftrightarrow> (\<forall>i n inp. ToolUse i n inp \<in> set cs \<longrightarrow> i \<in> ids)"
    by (auto simp: filter_empty_conv split: ClaudeContent.splits)
  moreover have "\<not> list_ex isToolUse cs \<Longrightarrow> (\<forall>i n inp. ToolUse i n inp \<in> set cs \<longrightarrow> i \<in> ids)"
    by (auto simp: list_ex_iff isToolUse_def)
  ultimately show ?thesis using Blocks
    by (auto simp: keepMessage_def contentBlocks_def Let_def)
qed

text \<open>
  The loop over the cleaned messages concatenates what each message contributes, and the
  loop over the blocks of a message fills the three arrays block by block.
\<close>

lemma convertMessages_concat:
  "convertMessages stringify ms =
     concat (map (convertMessage stringify (successfulToolResultIds ms)) (cleanIncompleteToolCalls ms))"
proof -
  have "\<And>acc. foldl (\<lambda>out m. out @ convertMessage stringify S m) acc xs
           = acc @ concat (map (convertMessage stringify S) xs)" for S xs
    by (induction xs) auto
  then show ?thesis by (simp add: convertMessages_def Let_def)
qed


lemma foldl_convertContent:
  "foldl (convertContent stringify S) (ts, tcs, trs) cs =
     (ts @ concat (map (textLines stringify S) cs),
      tcs @ [\<lparr>call_id = i, call_type = ''function'',
               call_function = \<lparr>name = n, arguments = stringify inp\<rparr>\<rparr>.
             ToolUse i n inp \<leftarrow> cs, i \<in> S],
      trs @ [(tid, resultString stringify c). ToolResult tid c e \<leftarrow> cs, e \<noteq> Some True])"
proof (induction cs arbitrary: ts tcs trs)
  case Nil
  then show ?case by simp
next
  case (Cons c cs)
  then show ?case by (cases c) (simp_all add: Let_def)
qed

lemma keep_clean:
  "m \<in> set (cleanIncompleteToolCalls ms) \<longleftrightarrow>
     m \<in> set ms \<and> (\<forall>i n inp. ToolUse i n inp \<in> set (contentBlocks m) \<longrightarrow> i \<in> toolResultIds ms)"
  by (simp add: cleanIncompleteToolCalls_def keepMessage_iff)

lemma convertMessage_Blocks:
  assumes "content m = Blocks cs"
  shows "convertMessage stringify S m =
     (let textContents = concat (map (textLines stringify S) cs);
          toolCalls = [\<lparr>call_id = i, call_type = ''function'',
                        call_function = \<lparr>name = n, arguments = stringify inp\<rparr>\<rparr>.
                       ToolUse i n inp \<leftarrow> cs, i \<in> S];
          toolResults = [(tid, resultString stringify c). ToolResult tid c e \<leftarrow> cs, e \<noteq> Some True]
      in (if 0 < length textContents \<or> 0 < length toolCalls then
            [\<lparr>msg_role = providerRole (role m),
              msg_content =
                (if 0 < length textContents then Some (join [CHR 0x0A] textContents) else None),
              tool_calls = (if 0 < length toolCalls then Some toolCalls else None),
              tool_call_id = None\<rparr>]
          else [])
         @ map toolMessage toolResults)"
  unfolding convertMessage_def Let_def assms MessageContent.case
    foldl_convertContent append_Nil prod.case ..

lemma toolCallsOf_convertMessage:
  "concat (map toolCallsOf (convertMessage stringify S m)) =
     [\<lparr>call_id = i, call_type = ''function'',
       call_function = \<lparr>name = n, arguments = stringify inp\<rparr>\<rparr>.
      ToolUse i n inp \<leftarrow> contentBlocks m, i \<in> S]"
proof (cases "content m")
  case (Plain s)
  then show ?thesis by (simp add: convertMessage_def contentBlocks_def toolCallsOf_def)
next
  case (Blocks cs)
  define C where "C = [\<lparr>call_id = i, call_type = ''function'',
                        call_function = \<lparr>name = n, arguments = stringify inp\<rparr>\<rparr>.
                       ToolUse i n inp \<leftarrow> cs, i \<in> S]"
  have cb: "contentBlocks m = cs" using Blocks by (simp add: contentBlocks_def)
  have "concat (map toolCallsOf (convertMessage stringify S m)) = C"
    unfolding convertMessage_Blocks [OF Blocks] Let_def C_def [symmetric]
    by (cases C) (simp_all add: toolCallsOf_def toolMessage_def)
  then show ?thesis unfolding cb C_def .
qed

section \<open>Claims about the reconciler\<close>

text \<open>
  Claim C1. In the output of the reconciler every tool use has an id that some tool result
  of the input conversation carries. A message of the input with a tool use whose id no
  tool result of the conversation carries is not in the output, with all its blocks. Every
  tool call of the provider payload that \<open>convertMessages\<close> builds has an id that some tool
  result of the input carries. For the conversation of a user message \<^verbatim>\<open>hi\<close> and an
  assistant message with a text block and an unanswered tool use, the reconciler keeps the
  user message alone and the payload is that one message, with no tool call.
\<close>

theorem cleanIncompleteToolCalls_drops_unanswered:
  "(\<forall>m \<in> set (cleanIncompleteToolCalls ms). \<forall>i n inp.
      ToolUse i n inp \<in> set (contentBlocks m) \<longrightarrow>
        (\<exists>m' \<in> set ms. \<exists>c e. ToolResult i c e \<in> set (contentBlocks m')))
   \<and> (\<forall>m \<in> set ms. \<forall>i n inp.
        ToolUse i n inp \<in> set (contentBlocks m) \<and>
        \<not> (\<exists>m' \<in> set ms. \<exists>c e. ToolResult i c e \<in> set (contentBlocks m'))
          \<longrightarrow> m \<notin> set (cleanIncompleteToolCalls ms))
   \<and> (\<forall>pm \<in> set (convertMessages stringify ms). \<forall>tc \<in> set (toolCallsOf pm).
        \<exists>m' \<in> set ms. \<exists>c e. ToolResult (call_id tc) c e \<in> set (contentBlocks m'))
   \<and> cleanIncompleteToolCalls
        [\<lparr>role = ''user'', content = Plain ''hi''\<rparr>,
         \<lparr>role = ''assistant'', content = Blocks [Text t, ToolUse i0 n0 inp0]\<rparr>]
       = [\<lparr>role = ''user'', content = Plain ''hi''\<rparr>]
   \<and> convertMessages stringify
        [\<lparr>role = ''user'', content = Plain ''hi''\<rparr>,
         \<lparr>role = ''assistant'', content = Blocks [Text t, ToolUse i0 n0 inp0]\<rparr>]
       = [\<lparr>msg_role = ''user'', msg_content = Some ''hi'', tool_calls = None,
           tool_call_id = None\<rparr>]"
proof (intro conjI)
  show "\<forall>m \<in> set (cleanIncompleteToolCalls ms). \<forall>i n inp.
      ToolUse i n inp \<in> set (contentBlocks m) \<longrightarrow>
        (\<exists>m' \<in> set ms. \<exists>c e. ToolResult i c e \<in> set (contentBlocks m'))"
    by (simp add: keep_clean toolResultIds_iff)
  show "\<forall>m \<in> set ms. \<forall>i n inp.
        ToolUse i n inp \<in> set (contentBlocks m) \<and>
        \<not> (\<exists>m' \<in> set ms. \<exists>c e. ToolResult i c e \<in> set (contentBlocks m'))
          \<longrightarrow> m \<notin> set (cleanIncompleteToolCalls ms)"
    unfolding keep_clean toolResultIds_iff by blast
  show "\<forall>pm \<in> set (convertMessages stringify ms). \<forall>tc \<in> set (toolCallsOf pm).
        \<exists>m' \<in> set ms. \<exists>c e. ToolResult (call_id tc) c e \<in> set (contentBlocks m')"
  proof (intro ballI)
    fix pm tc
    assume pm: "pm \<in> set (convertMessages stringify ms)" and tc: "tc \<in> set (toolCallsOf pm)"
    from pm obtain m where m: "m \<in> set (cleanIncompleteToolCalls ms)"
      and pm': "pm \<in> set (convertMessage stringify (successfulToolResultIds ms) m)"
      by (auto simp: convertMessages_concat)
    from pm' tc have "tc \<in> set (concat (map toolCallsOf
        (convertMessage stringify (successfulToolResultIds ms) m)))"
      by auto
    then have "call_id tc \<in> successfulToolResultIds ms"
      unfolding toolCallsOf_convertMessage by (auto split: ClaudeContent.splits if_splits)
    then have "call_id tc \<in> toolResultIds ms" using successful_subset by blast
    then show "\<exists>m' \<in> set ms. \<exists>c e. ToolResult (call_id tc) c e \<in> set (contentBlocks m')"
      by (simp add: toolResultIds_iff)
  qed
  show "cleanIncompleteToolCalls
        [\<lparr>role = ''user'', content = Plain ''hi''\<rparr>,
         \<lparr>role = ''assistant'', content = Blocks [Text t, ToolUse i0 n0 inp0]\<rparr>]
       = [\<lparr>role = ''user'', content = Plain ''hi''\<rparr>]"
    by (simp add: cleanIncompleteToolCalls_def keepMessage_def toolResultIds_def
        addToolResultId_def isToolUse_def)
  then show "convertMessages stringify
        [\<lparr>role = ''user'', content = Plain ''hi''\<rparr>,
         \<lparr>role = ''assistant'', content = Blocks [Text t, ToolUse i0 n0 inp0]\<rparr>]
       = [\<lparr>msg_role = ''user'', msg_content = Some ''hi'', tool_calls = None,
           tool_call_id = None\<rparr>]"
    by (simp add: convertMessages_def convertMessage_def providerRole_def)
qed

text \<open>
  The theorem at a conversation of four messages: the first tool use is answered and stays,
  the last one is not and its message goes, text block included.
\<close>

theorem cleanIncompleteToolCalls_drops_unanswered_witness:
  "cleanIncompleteToolCalls
     [\<lparr>role = ''user'', content = Plain ''hi''\<rparr>,
      \<lparr>role = ''assistant'',
       content = Blocks [Text ''checking'', ToolUse ''t1'' ''f'' (JObject [])]\<rparr>,
      \<lparr>role = ''user'', content = Blocks [ToolResult ''t1'' (ResultText ''done'') None]\<rparr>,
      \<lparr>role = ''assistant'',
       content = Blocks [Text ''next'', ToolUse ''t2'' ''g'' (JObject [])]\<rparr>]
   = [\<lparr>role = ''user'', content = Plain ''hi''\<rparr>,
      \<lparr>role = ''assistant'',
       content = Blocks [Text ''checking'', ToolUse ''t1'' ''f'' (JObject [])]\<rparr>,
      \<lparr>role = ''user'', content = Blocks [ToolResult ''t1'' (ResultText ''done'') None]\<rparr>]
   \<and> convertMessages JSON_stringify
     [\<lparr>role = ''user'', content = Plain ''hi''\<rparr>,
      \<lparr>role = ''assistant'',
       content = Blocks [Text ''checking'', ToolUse ''t1'' ''f'' (JObject [])]\<rparr>,
      \<lparr>role = ''user'', content = Blocks [ToolResult ''t1'' (ResultText ''done'') None]\<rparr>,
      \<lparr>role = ''assistant'',
       content = Blocks [Text ''next'', ToolUse ''t2'' ''g'' (JObject [])]\<rparr>]
   = [\<lparr>msg_role = ''user'', msg_content = Some ''hi'', tool_calls = None, tool_call_id = None\<rparr>,
      \<lparr>msg_role = ''assistant'', msg_content = Some ''checking'',
       tool_calls = Some [\<lparr>call_id = ''t1'', call_type = ''function'',
                           call_function = \<lparr>name = ''f'', arguments = ''{}''\<rparr>\<rparr>],
       tool_call_id = None\<rparr>,
      \<lparr>msg_role = ''tool'', msg_content = Some ''done'', tool_calls = None,
       tool_call_id = Some ''t1''\<rparr>]
   \<and> (\<exists>m' \<in> set
     [\<lparr>role = ''user'', content = Plain ''hi''\<rparr>,
      \<lparr>role = ''assistant'',
       content = Blocks [Text ''checking'', ToolUse ''t1'' ''f'' (JObject [])]\<rparr>,
      \<lparr>role = ''user'', content = Blocks [ToolResult ''t1'' (ResultText ''done'') None]\<rparr>,
      \<lparr>role = ''assistant'',
       content = Blocks [Text ''next'', ToolUse ''t2'' ''g'' (JObject [])]\<rparr>].
        \<exists>c e. ToolResult ''t1'' c e \<in> set (contentBlocks m'))"
proof -
  let ?m1 = "\<lparr>role = ''user'', content = Plain ''hi''\<rparr>"
  let ?m2 = "\<lparr>role = ''assistant'',
       content = Blocks [Text ''checking'', ToolUse ''t1'' ''f'' (JObject [])]\<rparr>"
  let ?m3 = "\<lparr>role = ''user'', content = Blocks [ToolResult ''t1'' (ResultText ''done'') None]\<rparr>"
  let ?m4 = "\<lparr>role = ''assistant'',
       content = Blocks [Text ''next'', ToolUse ''t2'' ''g'' (JObject [])]\<rparr>"
  let ?ms = "[?m1, ?m2, ?m3, ?m4]"
  have clean: "cleanIncompleteToolCalls ?ms = [?m1, ?m2, ?m3]"
    by (simp add: cleanIncompleteToolCalls_def keepMessage_def toolResultIds_def
        addToolResultId_def isToolUse_def)
  have succ: "successfulToolResultIds ?ms = {''t1''}"
    by (simp add: successfulToolResultIds_def addSuccessfulToolResultId_def)
  have conv: "convertMessages JSON_stringify ?ms =
     [\<lparr>msg_role = ''user'', msg_content = Some ''hi'', tool_calls = None, tool_call_id = None\<rparr>,
      \<lparr>msg_role = ''assistant'', msg_content = Some ''checking'',
       tool_calls = Some [\<lparr>call_id = ''t1'', call_type = ''function'',
                           call_function = \<lparr>name = ''f'', arguments = ''{}''\<rparr>\<rparr>],
       tool_call_id = None\<rparr>,
      \<lparr>msg_role = ''tool'', msg_content = Some ''done'', tool_calls = None,
       tool_call_id = Some ''t1''\<rparr>]"
    unfolding convertMessages_def Let_def clean succ
    by (simp add: convertMessage_def providerRole_def toolMessage_def resultString_def)
  have survivor: "?m2 \<in> set (cleanIncompleteToolCalls ?ms)"
    unfolding clean by simp
  have use: "ToolUse ''t1'' ''f'' (JObject []) \<in> set (contentBlocks ?m2)"
    by (simp add: contentBlocks_def)
  from cleanIncompleteToolCalls_drops_unanswered [of ?ms JSON_stringify] survivor use
  have "\<exists>m' \<in> set ?ms. \<exists>c e. ToolResult ''t1'' c e \<in> set (contentBlocks m')"
    by blast
  with clean conv show ?thesis by blast
qed

text \<open>
  Claim C2. The reconciler is idempotent: cleaning a cleaned conversation changes nothing.
  The code does not do that when a message it removes holds the tool result another
  message's tool use depends on. Below, the second message answers \<^verbatim>\<open>t1\<close> and carries the
  unanswered tool use \<^verbatim>\<open>t2\<close>: the first pass removes it and keeps the first message, the
  second pass removes the first message too, and the payload built from the conversation
  holds the tool call \<^verbatim>\<open>t1\<close> with no tool message after it.
\<close>

theorem cleanIncompleteToolCalls_not_idempotent:
  "cleanIncompleteToolCalls
     [\<lparr>role = ''assistant'', content = Blocks [ToolUse ''t1'' ''f'' (JObject [])]\<rparr>,
      \<lparr>role = ''user'',
       content = Blocks [ToolResult ''t1'' (ResultText ''done'') None,
                         ToolUse ''t2'' ''g'' (JObject [])]\<rparr>]
     = [\<lparr>role = ''assistant'', content = Blocks [ToolUse ''t1'' ''f'' (JObject [])]\<rparr>]
   \<and> cleanIncompleteToolCalls
       [\<lparr>role = ''assistant'', content = Blocks [ToolUse ''t1'' ''f'' (JObject [])]\<rparr>]
     = []
   \<and> convertMessages JSON_stringify
     [\<lparr>role = ''assistant'', content = Blocks [ToolUse ''t1'' ''f'' (JObject [])]\<rparr>,
      \<lparr>role = ''user'',
       content = Blocks [ToolResult ''t1'' (ResultText ''done'') None,
                         ToolUse ''t2'' ''g'' (JObject [])]\<rparr>]
     = [\<lparr>msg_role = ''assistant'', msg_content = None,
         tool_calls = Some [\<lparr>call_id = ''t1'', call_type = ''function'',
                             call_function = \<lparr>name = ''f'', arguments = ''{}''\<rparr>\<rparr>],
         tool_call_id = None\<rparr>]"
proof -
  let ?a = "\<lparr>role = ''assistant'', content = Blocks [ToolUse ''t1'' ''f'' (JObject [])]\<rparr>"
  let ?b = "\<lparr>role = ''user'',
       content = Blocks [ToolResult ''t1'' (ResultText ''done'') None,
                         ToolUse ''t2'' ''g'' (JObject [])]\<rparr>"
  have first: "cleanIncompleteToolCalls [?a, ?b] = [?a]"
    by (simp add: cleanIncompleteToolCalls_def keepMessage_def toolResultIds_def
        addToolResultId_def isToolUse_def)
  have second: "cleanIncompleteToolCalls [?a] = []"
    by (simp add: cleanIncompleteToolCalls_def keepMessage_def toolResultIds_def
        addToolResultId_def isToolUse_def)
  have succ: "successfulToolResultIds [?a, ?b] = {''t1''}"
    by (simp add: successfulToolResultIds_def addSuccessfulToolResultId_def)
  have "convertMessages JSON_stringify [?a, ?b] =
      [\<lparr>msg_role = ''assistant'', msg_content = None,
         tool_calls = Some [\<lparr>call_id = ''t1'', call_type = ''function'',
                             call_function = \<lparr>name = ''f'', arguments = ''{}''\<rparr>\<rparr>],
         tool_call_id = None\<rparr>]"
    unfolding convertMessages_def Let_def first succ
    by (simp add: convertMessage_def providerRole_def)
  with first second show ?thesis by blast
qed

section \<open>Facts about the text a message accumulates\<close>

text \<open>A line that is joined into a text is a substring of the text.\<close>

lemma sublist_join: "x \<in> set xs \<Longrightarrow> sublist x (join sep xs)"
proof (induction sep xs rule: join.induct)
  case (1 sep)
  then show ?case by simp
next
  case (2 sep y)
  then show ?case by simp
next
  case (3 sep y z zs)
  show ?case
  proof (cases "x = y")
    case True
    then show ?thesis by (simp add: sublist_append_rightI)
  next
    case False
    with 3 have "sublist x (join sep (z # zs))" by simp
    moreover have "sublist (join sep (z # zs)) ((y @ sep) @ join sep (z # zs))"
      by (rule sublist_append_leftI)
    ultimately have "sublist x ((y @ sep) @ join sep (z # zs))"
      by (rule sublist_order.order.trans)
    then show ?thesis by simp
  qed
qed

text \<open>The three synthetic lines hold the phrases the specification names.\<close>

lemma interruptedLine_includes:
  "sublist (''User interrupted: '' @ n @ '' operation was cancelled by user'') (interruptedLine n)"
proof -
  have "interruptedLine n =
      ''['' @ (''User interrupted: '' @ n @ '' operation was cancelled by user'') @ '']''"
    by (simp add: interruptedLine_def)
  then show ?thesis by (simp only: sublist_appendI)
qed

lemma errorLine_includes: "sublist (''Tool execution error: '' @ e) (errorLine e)"
proof -
  have "errorLine e = ''['' @ (''Tool execution error: '' @ e) @ '']''"
    by (simp add: errorLine_def)
  then show ?thesis by (simp only: sublist_appendI)
qed

lemma feedbackLine_includes: "sublist ''The previous action was interrupted'' feedbackLine"
proof -
  have "feedbackLine = ''[User provided feedback: '' @ ''The previous action was interrupted''
      @ ''. Please pay attention to the new user input and adjust your approach accordingly.]''"
    by (simp add: feedbackLine_def)
  then show ?thesis by (metis sublist_appendI)
qed

text \<open>
  A message with blocks becomes one provider message with the joined text and the tool
  calls, followed by one tool message per successful result; none of the former has the
  role \<^verbatim>\<open>tool\<close>.
\<close>

lemma providerRole_not_tool: "providerRole r \<noteq> ''tool''"
  by (simp add: providerRole_def)

lemma convertMessage_text:
  assumes "c \<in> set (contentBlocks m)" and "line \<in> set (textLines stringify S c)"
  shows "\<exists>pm \<in> set (convertMessage stringify S m). \<exists>tx.
           msg_role pm = providerRole (role m) \<and> msg_content pm = Some tx \<and> sublist line tx"
proof (cases "content m")
  case (Plain s)
  with assms show ?thesis by (simp add: contentBlocks_def)
next
  case (Blocks cs)
  define T where "T = concat (map (textLines stringify S) cs)"
  from assms Blocks have "line \<in> set T" by (auto simp: T_def contentBlocks_def)
  then have ne: "0 < length T" and sub: "sublist line (join [CHR 0x0A] T)"
    by (auto simp: sublist_join)
  show ?thesis
    unfolding convertMessage_Blocks [OF Blocks] Let_def T_def [symmetric]
    using ne sub by simp
qed

lemma convertMessage_tool_messages:
  "filter (\<lambda>pm. msg_role pm = ''tool'') (convertMessage stringify S m) =
     [toolMessage (tid, resultString stringify c).
      ToolResult tid c e \<leftarrow> contentBlocks m, e \<noteq> Some True]"
proof (cases "content m")
  case (Plain s)
  then show ?thesis
    by (simp add: convertMessage_def contentBlocks_def providerRole_not_tool)
next
  case (Blocks cs)
  have cb: "contentBlocks m = cs" using Blocks by (simp add: contentBlocks_def)
  define R where
    "R = [(tid, resultString stringify c). ToolResult tid c e \<leftarrow> cs, e \<noteq> Some True]"
  have all: "filter (\<lambda>pm. msg_role pm = ''tool'') (map toolMessage trs) = map toolMessage trs" for trs
    by (induction trs) (simp_all add: toolMessage_def)
  have "filter (\<lambda>pm. msg_role pm = ''tool'') (convertMessage stringify S m) = map toolMessage R"
    unfolding convertMessage_Blocks [OF Blocks] Let_def R_def [symmetric]
    by (simp add: all providerRole_not_tool)
  also have "map toolMessage R =
      [toolMessage (tid, resultString stringify c). ToolResult tid c e \<leftarrow> cs, e \<noteq> Some True]"
    unfolding R_def by (induction cs) (auto split: ClaudeContent.splits)
  finally show ?thesis unfolding cb .
qed


lemma toolCallsOf_concat:
  "concat (map toolCallsOf (concat (map (convertMessage stringify S) xs))) =
     [\<lparr>call_id = i, call_type = ''function'',
       call_function = \<lparr>name = n, arguments = stringify inp\<rparr>\<rparr>.
      m \<leftarrow> xs, ToolUse i n inp \<leftarrow> contentBlocks m, i \<in> S]"
  by (induction xs) (simp_all add: toolCallsOf_convertMessage)

lemma tool_messages_concat:
  "filter (\<lambda>pm. msg_role pm = ''tool'') (concat (map (convertMessage stringify S) xs)) =
     [toolMessage (tid, resultString stringify c).
      m \<leftarrow> xs, ToolResult tid c e \<leftarrow> contentBlocks m, e \<noteq> Some True]"
  by (induction xs) (simp_all add: convertMessage_tool_messages)

section \<open>Claims about the request mapper\<close>

text \<open>
  Claim C9. The tool calls of the provider payload, read message by message, are exactly
  the tool uses of the messages that survive reconciliation whose id is in the successful
  set, in their order, each once, with the id, the name and the stringified input of the
  tool use. The successful set holds the ids of the tool results of the conversation that
  are not errors. For a surviving tool use whose id is not in that set, no tool call of the
  payload has its id, and the payload holds a message, with the role of the tool use's
  message, whose text contains the line
  \<^verbatim>\<open>User interrupted: {name} operation was cancelled by user\<close>.
\<close>

theorem convertMessages_tool_use_entries:
  "concat (map toolCallsOf (convertMessages stringify ms)) =
     [\<lparr>call_id = i, call_type = ''function'',
       call_function = \<lparr>name = n, arguments = stringify inp\<rparr>\<rparr>.
      m \<leftarrow> cleanIncompleteToolCalls ms, ToolUse i n inp \<leftarrow> contentBlocks m,
      i \<in> successfulToolResultIds ms]
   \<and> (\<forall>i. (i \<in> successfulToolResultIds ms) =
          (\<exists>m \<in> set ms. \<exists>c e. ToolResult i c e \<in> set (contentBlocks m) \<and> e \<noteq> Some True))
   \<and> (\<forall>m \<in> set (cleanIncompleteToolCalls ms). \<forall>i n inp.
         ToolUse i n inp \<in> set (contentBlocks m) \<and> i \<notin> successfulToolResultIds ms \<longrightarrow>
           (\<exists>pm \<in> set (convertMessages stringify ms). \<exists>tx.
              msg_role pm = providerRole (role m) \<and> msg_content pm = Some tx \<and>
              str_includes tx (''User interrupted: '' @ n @ '' operation was cancelled by user''))
           \<and> (\<forall>pm \<in> set (convertMessages stringify ms). \<forall>tc \<in> set (toolCallsOf pm).
                 call_id tc \<noteq> i))"
proof (intro conjI)
  let ?S = "successfulToolResultIds ms"
  show calls: "concat (map toolCallsOf (convertMessages stringify ms)) =
     [\<lparr>call_id = i, call_type = ''function'',
       call_function = \<lparr>name = n, arguments = stringify inp\<rparr>\<rparr>.
      m \<leftarrow> cleanIncompleteToolCalls ms, ToolUse i n inp \<leftarrow> contentBlocks m, i \<in> ?S]"
    unfolding convertMessages_concat by (rule toolCallsOf_concat)
  show "\<forall>i. (i \<in> ?S) =
          (\<exists>m \<in> set ms. \<exists>c e. ToolResult i c e \<in> set (contentBlocks m) \<and> e \<noteq> Some True)"
    by (simp add: successfulToolResultIds_iff)
  show "\<forall>m \<in> set (cleanIncompleteToolCalls ms). \<forall>i n inp.
         ToolUse i n inp \<in> set (contentBlocks m) \<and> i \<notin> ?S \<longrightarrow>
           (\<exists>pm \<in> set (convertMessages stringify ms). \<exists>tx.
              msg_role pm = providerRole (role m) \<and> msg_content pm = Some tx \<and>
              str_includes tx (''User interrupted: '' @ n @ '' operation was cancelled by user''))
           \<and> (\<forall>pm \<in> set (convertMessages stringify ms). \<forall>tc \<in> set (toolCallsOf pm).
                 call_id tc \<noteq> i)"
  proof (intro ballI allI impI, elim conjE)
    fix m i n inp
    assume m: "m \<in> set (cleanIncompleteToolCalls ms)"
      and use: "ToolUse i n inp \<in> set (contentBlocks m)" and out: "i \<notin> ?S"
    from out have "interruptedLine n \<in> set (textLines stringify ?S (ToolUse i n inp))" by simp
    from convertMessage_text [OF use this]
    obtain pm tx where pm: "pm \<in> set (convertMessage stringify ?S m)"
      and r: "msg_role pm = providerRole (role m)" and c: "msg_content pm = Some tx"
      and s: "sublist (interruptedLine n) tx"
      by blast
    from s interruptedLine_includes [of n]
    have "sublist (''User interrupted: '' @ n @ '' operation was cancelled by user'') tx"
      using sublist_order.order.trans by blast
    then have inc: "str_includes tx (''User interrupted: '' @ n @ '' operation was cancelled by user'')"
      by (simp add: str_includes_sublist)
    from pm m have "pm \<in> set (convertMessages stringify ms)"
      by (auto simp: convertMessages_concat)
    with r c inc have first: "\<exists>pm \<in> set (convertMessages stringify ms). \<exists>tx.
              msg_role pm = providerRole (role m) \<and> msg_content pm = Some tx \<and>
              str_includes tx (''User interrupted: '' @ n @ '' operation was cancelled by user'')"
      by blast
    have second: "\<forall>pm \<in> set (convertMessages stringify ms). \<forall>tc \<in> set (toolCallsOf pm).
                 call_id tc \<noteq> i"
    proof (intro ballI)
      fix pm tc
      assume "pm \<in> set (convertMessages stringify ms)" and "tc \<in> set (toolCallsOf pm)"
      then have "tc \<in> set (concat (map toolCallsOf (convertMessages stringify ms)))" by auto
      then have "call_id tc \<in> ?S"
        unfolding calls by (auto split: ClaudeContent.splits if_splits)
      with out show "call_id tc \<noteq> i" by blast
    qed
    from first second show "(\<exists>pm \<in> set (convertMessages stringify ms). \<exists>tx.
              msg_role pm = providerRole (role m) \<and> msg_content pm = Some tx \<and>
              str_includes tx (''User interrupted: '' @ n @ '' operation was cancelled by user''))
           \<and> (\<forall>pm \<in> set (convertMessages stringify ms). \<forall>tc \<in> set (toolCallsOf pm).
                 call_id tc \<noteq> i)" by blast
  qed
qed


text \<open>
  The theorem at a conversation whose first tool use has a successful result and whose
  second has an erroring one.
\<close>

theorem convertMessages_tool_use_entries_witness:
  "concat (map toolCallsOf (convertMessages JSON_stringify
      [\<lparr>role = ''assistant'',
        content = Blocks [Text ''Working'', ToolUse ''t1'' ''f'' (JObject []),
                          ToolUse ''t2'' ''g'' (JObject [(''a'', JNumber 1)])]\<rparr>,
       \<lparr>role = ''user'',
        content = Blocks [ToolResult ''t1'' (ResultText ''done'') None,
                          ToolResult ''t2'' (ResultText ''boom'') (Some True)]\<rparr>]))
    = [\<lparr>call_id = ''t1'', call_type = ''function'',
        call_function = \<lparr>name = ''f'', arguments = ''{}''\<rparr>\<rparr>]
   \<and> (\<exists>pm \<in> set (convertMessages JSON_stringify
      [\<lparr>role = ''assistant'',
        content = Blocks [Text ''Working'', ToolUse ''t1'' ''f'' (JObject []),
                          ToolUse ''t2'' ''g'' (JObject [(''a'', JNumber 1)])]\<rparr>,
       \<lparr>role = ''user'',
        content = Blocks [ToolResult ''t1'' (ResultText ''done'') None,
                          ToolResult ''t2'' (ResultText ''boom'') (Some True)]\<rparr>]).
        \<exists>tx. msg_role pm = ''assistant'' \<and> msg_content pm = Some tx \<and>
          str_includes tx ''User interrupted: g operation was cancelled by user'')"
proof -
  let ?m1 = "\<lparr>role = ''assistant'',
        content = Blocks [Text ''Working'', ToolUse ''t1'' ''f'' (JObject []),
                          ToolUse ''t2'' ''g'' (JObject [(''a'', JNumber 1)])]\<rparr>"
  let ?m2 = "\<lparr>role = ''user'',
        content = Blocks [ToolResult ''t1'' (ResultText ''done'') None,
                          ToolResult ''t2'' (ResultText ''boom'') (Some True)]\<rparr>"
  let ?ms = "[?m1, ?m2]"
  note main = convertMessages_tool_use_entries [of JSON_stringify ?ms]
  have clean: "cleanIncompleteToolCalls ?ms = ?ms"
    by (simp add: cleanIncompleteToolCalls_def keepMessage_def toolResultIds_def
        addToolResultId_def isToolUse_def)
  have succ: "successfulToolResultIds ?ms = {''t1''}"
    by (simp add: successfulToolResultIds_def addSuccessfulToolResultId_def)
  have calls: "concat (map toolCallsOf (convertMessages JSON_stringify ?ms))
    = [\<lparr>call_id = ''t1'', call_type = ''function'',
        call_function = \<lparr>name = ''f'', arguments = ''{}''\<rparr>\<rparr>]"
    unfolding main [THEN conjunct1] clean succ by (simp add: contentBlocks_def)
  have m: "?m1 \<in> set (cleanIncompleteToolCalls ?ms)" unfolding clean by simp
  have use: "ToolUse ''t2'' ''g'' (JObject [(''a'', JNumber 1)]) \<in> set (contentBlocks ?m1)
      \<and> ''t2'' \<notin> successfulToolResultIds ?ms"
    unfolding succ by (simp add: contentBlocks_def)
  from main [THEN conjunct2, THEN conjunct2, rule_format, OF m use, THEN conjunct1]
  have "\<exists>pm \<in> set (convertMessages JSON_stringify ?ms).
        \<exists>tx. msg_role pm = ''assistant'' \<and> msg_content pm = Some tx \<and>
          str_includes tx ''User interrupted: g operation was cancelled by user''"
    by (simp add: providerRole_def)
  with calls show ?thesis by blast
qed


text \<open>
  Claim C8 as it is stated speaks of every erroring tool result of the mapper's input. A
  result whose message the reconciler removes leaves no text: below, the message of the
  erroring result also carries an unanswered tool use, the reconciler removes it, and the
  payload is empty, so no message of it contains \<^verbatim>\<open>Tool execution error: boom\<close>.
\<close>

theorem convertMessages_error_result_dropped_with_message:
  "ToolResult ''t1'' (ResultText ''boom'') (Some True) \<in> set (contentBlocks
      \<lparr>role = ''user'',
       content = Blocks [ToolResult ''t1'' (ResultText ''boom'') (Some True),
                         ToolUse ''t2'' ''g'' (JObject [])]\<rparr>)
   \<and> convertMessages JSON_stringify
      [\<lparr>role = ''user'',
        content = Blocks [ToolResult ''t1'' (ResultText ''boom'') (Some True),
                          ToolUse ''t2'' ''g'' (JObject [])]\<rparr>] = []"
proof -
  let ?m = "\<lparr>role = ''user'',
        content = Blocks [ToolResult ''t1'' (ResultText ''boom'') (Some True),
                          ToolUse ''t2'' ''g'' (JObject [])]\<rparr>"
  have clean: "cleanIncompleteToolCalls [?m] = []"
    by (simp add: cleanIncompleteToolCalls_def keepMessage_def toolResultIds_def
        addToolResultId_def isToolUse_def)
  have "convertMessages JSON_stringify [?m] = []"
    unfolding convertMessages_def Let_def clean by simp
  then show ?thesis by (simp add: contentBlocks_def)
qed


text \<open>
  Claim C8, as amended. For every tool result with \<^verbatim>\<open>is_error = true\<close> in a message that
  survives reconciliation, the payload holds a message, with the role of the result's
  message, whose text contains \<^verbatim>\<open>The previous action was interrupted\<close> when the result's
  content contains \<^verbatim>\<open>Interrupted by user\<close>, and
  \<^verbatim>\<open>Tool execution error: {content}\<close> otherwise. The messages of role \<^verbatim>\<open>tool\<close> in the
  payload are exactly those of the results that are not errors, so an erroring result has
  none.
\<close>

theorem convertMessages_error_result_folded:
  "(\<forall>m \<in> set (cleanIncompleteToolCalls ms). \<forall>tid c.
      ToolResult tid c (Some True) \<in> set (contentBlocks m) \<longrightarrow>
        (\<exists>pm \<in> set (convertMessages stringify ms). \<exists>tx.
           msg_role pm = providerRole (role m) \<and> msg_content pm = Some tx \<and>
           (if str_includes (resultString stringify c) ''Interrupted by user''
            then str_includes tx ''The previous action was interrupted''
            else str_includes tx (''Tool execution error: '' @ resultString stringify c))))
   \<and> filter (\<lambda>pm. msg_role pm = ''tool'') (convertMessages stringify ms) =
       [toolMessage (tid, resultString stringify c).
        m \<leftarrow> cleanIncompleteToolCalls ms, ToolResult tid c e \<leftarrow> contentBlocks m,
        e \<noteq> Some True]"
proof (intro conjI ballI allI impI)
  let ?S = "successfulToolResultIds ms"
  show "filter (\<lambda>pm. msg_role pm = ''tool'') (convertMessages stringify ms) =
       [toolMessage (tid, resultString stringify c).
        m \<leftarrow> cleanIncompleteToolCalls ms, ToolResult tid c e \<leftarrow> contentBlocks m,
        e \<noteq> Some True]"
    unfolding convertMessages_concat by (rule tool_messages_concat)
  fix m tid c
  assume m: "m \<in> set (cleanIncompleteToolCalls ms)"
    and res: "ToolResult tid c (Some True) \<in> set (contentBlocks m)"
  let ?line = "if str_includes (resultString stringify c) ''Interrupted by user''
               then feedbackLine else errorLine (resultString stringify c)"
  have "?line \<in> set (textLines stringify ?S (ToolResult tid c (Some True)))" by simp
  from convertMessage_text [OF res this]
  obtain pm tx where pm: "pm \<in> set (convertMessage stringify ?S m)"
    and r: "msg_role pm = providerRole (role m)" and c: "msg_content pm = Some tx"
    and s: "sublist ?line tx"
    by blast
  have "if str_includes (resultString stringify c) ''Interrupted by user''
        then str_includes tx ''The previous action was interrupted''
        else str_includes tx (''Tool execution error: '' @ resultString stringify c)"
  proof (cases "str_includes (resultString stringify c) ''Interrupted by user''")
    case True
    with s have "sublist feedbackLine tx" by simp
    with feedbackLine_includes have "sublist ''The previous action was interrupted'' tx"
      using sublist_order.order.trans by blast
    with True show ?thesis by (simp add: str_includes_sublist)
  next
    case False
    with s have "sublist (errorLine (resultString stringify c)) tx" by simp
    with errorLine_includes [of "resultString stringify c"]
    have "sublist (''Tool execution error: '' @ resultString stringify c) tx"
      using sublist_order.order.trans by blast
    with False show ?thesis by (simp add: str_includes_sublist)
  qed
  moreover from pm m have "pm \<in> set (convertMessages stringify ms)"
    by (auto simp: convertMessages_concat)
  ultimately show "\<exists>pm \<in> set (convertMessages stringify ms). \<exists>tx.
           msg_role pm = providerRole (role m) \<and> msg_content pm = Some tx \<and>
           (if str_includes (resultString stringify c) ''Interrupted by user''
            then str_includes tx ''The previous action was interrupted''
            else str_includes tx (''Tool execution error: '' @ resultString stringify c))"
    using r c by blast
qed

text \<open>
  The amended claim at a conversation with an interrupted result and a failed one.
\<close>

theorem convertMessages_error_result_folded_witness:
  "(\<exists>pm \<in> set (convertMessages JSON_stringify
      [\<lparr>role = ''assistant'', content = Blocks [ToolUse ''t1'' ''f'' (JObject [])]\<rparr>,
       \<lparr>role = ''user'',
        content = Blocks [ToolResult ''t1'' (ResultText ''Interrupted by user: stop'') (Some True),
                          ToolResult ''t1'' (ResultText ''boom'') (Some True)]\<rparr>]).
      \<exists>tx. msg_role pm = ''user'' \<and> msg_content pm = Some tx \<and>
        str_includes tx ''The previous action was interrupted'')
   \<and> (\<exists>pm \<in> set (convertMessages JSON_stringify
      [\<lparr>role = ''assistant'', content = Blocks [ToolUse ''t1'' ''f'' (JObject [])]\<rparr>,
       \<lparr>role = ''user'',
        content = Blocks [ToolResult ''t1'' (ResultText ''Interrupted by user: stop'') (Some True),
                          ToolResult ''t1'' (ResultText ''boom'') (Some True)]\<rparr>]).
      \<exists>tx. msg_role pm = ''user'' \<and> msg_content pm = Some tx \<and>
        str_includes tx ''Tool execution error: boom'')
   \<and> filter (\<lambda>pm. msg_role pm = ''tool'') (convertMessages JSON_stringify
      [\<lparr>role = ''assistant'', content = Blocks [ToolUse ''t1'' ''f'' (JObject [])]\<rparr>,
       \<lparr>role = ''user'',
        content = Blocks [ToolResult ''t1'' (ResultText ''Interrupted by user: stop'') (Some True),
                          ToolResult ''t1'' (ResultText ''boom'') (Some True)]\<rparr>]) = []"
proof -
  let ?m1 = "\<lparr>role = ''assistant'', content = Blocks [ToolUse ''t1'' ''f'' (JObject [])]\<rparr>"
  let ?m2 = "\<lparr>role = ''user'',
        content = Blocks [ToolResult ''t1'' (ResultText ''Interrupted by user: stop'') (Some True),
                          ToolResult ''t1'' (ResultText ''boom'') (Some True)]\<rparr>"
  let ?ms = "[?m1, ?m2]"
  note main = convertMessages_error_result_folded [of ?ms JSON_stringify]
  have clean: "cleanIncompleteToolCalls ?ms = ?ms"
    by (simp add: cleanIncompleteToolCalls_def keepMessage_def toolResultIds_def
        addToolResultId_def isToolUse_def)
  have m: "?m2 \<in> set (cleanIncompleteToolCalls ?ms)" unfolding clean by simp
  have r1: "ToolResult ''t1'' (ResultText ''Interrupted by user: stop'') (Some True)
      \<in> set (contentBlocks ?m2)"
    by (simp add: contentBlocks_def)
  have r2: "ToolResult ''t1'' (ResultText ''boom'') (Some True) \<in> set (contentBlocks ?m2)"
    by (simp add: contentBlocks_def)
  have i1: "str_includes (resultString JSON_stringify (ResultText ''Interrupted by user: stop''))
      ''Interrupted by user''"
    by (simp add: resultString_def)
  have i2: "\<not> str_includes (resultString JSON_stringify (ResultText ''boom''))
      ''Interrupted by user''"
    by (simp add: resultString_def)
  from main [THEN conjunct1, rule_format, OF m r1] i1
  have a: "\<exists>pm \<in> set (convertMessages JSON_stringify ?ms).
      \<exists>tx. msg_role pm = ''user'' \<and> msg_content pm = Some tx \<and>
        str_includes tx ''The previous action was interrupted''"
    by (simp add: providerRole_def)
  from main [THEN conjunct1, rule_format, OF m r2] i2
  have b: "\<exists>pm \<in> set (convertMessages JSON_stringify ?ms).
      \<exists>tx. msg_role pm = ''user'' \<and> msg_content pm = Some tx \<and>
        str_includes tx ''Tool execution error: boom''"
    by (simp add: providerRole_def resultString_def)
  have c: "filter (\<lambda>pm. msg_role pm = ''tool'') (convertMessages JSON_stringify ?ms) = []"
    unfolding main [THEN conjunct2] clean by (simp add: contentBlocks_def)
  from a b c show ?thesis by blast
qed

section \<open>Facts about the non-streaming response mapper\<close>

text \<open>The reference parser on the argument strings of the examples.\<close>

lemma JSON_parse_empty_object: "JSON_parse ''{}'' = Some (JObject [])"
  by code_simp

lemma JSON_parse_empty_string: "JSON_parse [] = None"
  by code_simp

lemma JSON_parse_object_a1: "JSON_parse ''{\"a\": 1}'' = Some (JObject [(''a'', JNumber 1)])"
  by code_simp

lemma JSON_parse_single_quoted: "JSON_parse ''{'a': 1}'' = None"
  by code_simp

lemma JSON_parse_not_json: "JSON_parse ''not json'' = None"
  by code_simp

lemma replaceSingleQuotes_example: "replaceSingleQuotes ''{'a': 1}'' = ''{\"a\": 1}''"
  by (simp add: replaceSingleQuotes_def)

lemma replaceSingleQuotes_not_json: "replaceSingleQuotes ''not json'' = ''not json''"
  by (simp add: replaceSingleQuotes_def)

text \<open>
  With a first choice, the content is the text block (when the message text is not empty)
  followed by one tool use per tool call, and the stop reason follows the presence of the
  \<^verbatim>\<open>tool_calls\<close> field.
\<close>

lemma foldl_toolUseOf:
  "foldl (\<lambda>blocks toolCall. blocks @ [toolUseOf parse toolCall]) bs tcs
     = bs @ map (toolUseOf parse) tcs"
  by (induction tcs arbitrary: bs) simp_all

lemma convertNormalData_choice:
  assumes "choices d = Some (ch # rest)"
  shows "response_content (convertNormalData parse gid d) =
           (case truthyString (resp_content (message ch)) of Some t \<Rightarrow> [Text t] | None \<Rightarrow> [])
           @ (case resp_tool_calls (message ch) of
                Some tcs \<Rightarrow> map (toolUseOf parse) tcs
              | None \<Rightarrow> [])"
    and "stop_reason (convertNormalData parse gid d) =
           Some (case resp_tool_calls (message ch) of
                   Some tcs \<Rightarrow> tool_use
                 | None \<Rightarrow> if finish_reason ch = Some ''length'' then max_tokens else end_turn)"
  using assms
  by (auto simp: convertNormalData_def Let_def foldl_toolUseOf split: option.splits)

section \<open>Claims about the non-streaming response mapper\<close>

text \<open>
  Claim C6. Decoding the arguments of a tool call parses them strictly; when that fails it
  parses them again with every single quote replaced by a double quote; when that fails
  too the input is the empty object. The decoder returns a JSON value in every case, so no
  failure reaches the client. (Empty arguments are read as \<^verbatim>\<open>{}\<close>, which gives the same
  result for a parser that rejects the empty string and reads \<^verbatim>\<open>{}\<close> as the empty object.)
  Each tool call of the first choice becomes one tool-use block with the decoded input.
  For the arguments \<^verbatim>\<open>{'a': 1}\<close> the strict parse fails, the replacement gives
  \<^verbatim>\<open>{"a": 1}\<close>, and the block's input is the object with \<^verbatim>\<open>a\<close> bound to 1.
\<close>

theorem parseToolArguments_repair:
  "(0 < length a \<or> (parse [] = None \<and> parse ''{}'' = Some (JObject [])) \<longrightarrow>
      parseToolArguments parse a =
        (case parse a of
           Some v \<Rightarrow> v
         | None \<Rightarrow> (case parse (replaceSingleQuotes a) of Some v \<Rightarrow> v | None \<Rightarrow> JObject [])))
   \<and> (choices d = Some (ch # rest) \<and> resp_tool_calls (message ch) = Some tcs \<longrightarrow>
        response_content (convertNormalData parse gid d) =
          (case truthyString (resp_content (message ch)) of Some t \<Rightarrow> [Text t] | None \<Rightarrow> [])
          @ map (\<lambda>tc. ToolUse (call_id tc) (name (call_function tc))
                        (parseToolArguments parse (arguments (call_function tc)))) tcs)
   \<and> JSON_parse ''{'a': 1}'' = None
   \<and> replaceSingleQuotes ''{'a': 1}'' = ''{\"a\": 1}''
   \<and> JSON_parse ''{\"a\": 1}'' = Some (JObject [(''a'', JNumber 1)])
   \<and> response_content
        (convertNormalData JSON_parse gid
           \<lparr>choices = Some
              [\<lparr>message =
                  \<lparr>resp_content = None,
                   resp_tool_calls = Some
                     [\<lparr>call_id = ''call_1'', call_type = ''function'',
                       call_function = \<lparr>name = ''f'', arguments = ''{'a': 1}''\<rparr>\<rparr>]\<rparr>,
                finish_reason = Some ''tool_calls''\<rparr>],
            usage = None\<rparr>)
       = [ToolUse ''call_1'' ''f'' (JObject [(''a'', JNumber 1)])]"
proof (intro conjI impI)
  assume h: "0 < length a \<or> (parse [] = None \<and> parse ''{}'' = Some (JObject []))"
  show "parseToolArguments parse a =
        (case parse a of
           Some v \<Rightarrow> v
         | None \<Rightarrow> (case parse (replaceSingleQuotes a) of Some v \<Rightarrow> v | None \<Rightarrow> JObject []))"
  proof (cases "0 < length a")
    case True
    then show ?thesis by (simp add: parseToolArguments_def)
  next
    case False
    with h have "parse [] = None" and "parse ''{}'' = Some (JObject [])" by auto
    with False show ?thesis by (simp add: parseToolArguments_def replaceSingleQuotes_def)
  qed
next
  assume "choices d = Some (ch # rest) \<and> resp_tool_calls (message ch) = Some tcs"
  then show "response_content (convertNormalData parse gid d) =
          (case truthyString (resp_content (message ch)) of Some t \<Rightarrow> [Text t] | None \<Rightarrow> [])
          @ map (\<lambda>tc. ToolUse (call_id tc) (name (call_function tc))
                        (parseToolArguments parse (arguments (call_function tc)))) tcs"
    by (simp add: convertNormalData_choice(1) toolUseOf_def [abs_def])
next
  show "JSON_parse ''{'a': 1}'' = None" by (rule JSON_parse_single_quoted)
  show "replaceSingleQuotes ''{'a': 1}'' = ''{\"a\": 1}''" by (rule replaceSingleQuotes_example)
  show "JSON_parse ''{\"a\": 1}'' = Some (JObject [(''a'', JNumber 1)])"
    by (rule JSON_parse_object_a1)
  have "parseToolArguments JSON_parse ''{'a': 1}'' = JObject [(''a'', JNumber 1)]"
    by (simp add: parseToolArguments_def JSON_parse_single_quoted replaceSingleQuotes_example
        JSON_parse_object_a1)
  then show "response_content
        (convertNormalData JSON_parse gid
           \<lparr>choices = Some
              [\<lparr>message =
                  \<lparr>resp_content = None,
                   resp_tool_calls = Some
                     [\<lparr>call_id = ''call_1'', call_type = ''function'',
                       call_function = \<lparr>name = ''f'', arguments = ''{'a': 1}''\<rparr>\<rparr>]\<rparr>,
                finish_reason = Some ''tool_calls''\<rparr>],
            usage = None\<rparr>)
       = [ToolUse ''call_1'' ''f'' (JObject [(''a'', JNumber 1)])]"
    by (simp add: convertNormalData_def truthyString_def toolUseOf_def)
qed

text \<open>
  The theorem at single-quoted arguments, at arguments no repair makes JSON, at empty
  arguments, and at a response with one tool call.
\<close>

theorem parseToolArguments_repair_witness:
  "parseToolArguments JSON_parse ''{'a': 1}'' = JObject [(''a'', JNumber 1)]
   \<and> parseToolArguments JSON_parse ''not json'' = JObject []
   \<and> parseToolArguments JSON_parse [] = JObject []
   \<and> response_content
        (convertNormalData JSON_parse ''msg_1''
           \<lparr>choices = Some
              [\<lparr>message =
                  \<lparr>resp_content = Some ''Looking'',
                   resp_tool_calls = Some
                     [\<lparr>call_id = ''call_1'', call_type = ''function'',
                       call_function = \<lparr>name = ''f'', arguments = ''not json''\<rparr>\<rparr>]\<rparr>,
                finish_reason = Some ''tool_calls''\<rparr>],
            usage = None\<rparr>)
       = [Text ''Looking'', ToolUse ''call_1'' ''f'' (JObject [])]"
proof -
  let ?ch = "\<lparr>message =
                  \<lparr>resp_content = Some ''Looking'',
                   resp_tool_calls = Some
                     [\<lparr>call_id = ''call_1'', call_type = ''function'',
                       call_function = \<lparr>name = ''f'', arguments = ''not json''\<rparr>\<rparr>]\<rparr>,
                finish_reason = Some ''tool_calls''\<rparr>"
  let ?d = "\<lparr>choices = Some [?ch], usage = None\<rparr>"
  note ref = JSON_parse_empty_string JSON_parse_empty_object
  have a: "parseToolArguments JSON_parse ''{'a': 1}'' = JObject [(''a'', JNumber 1)]"
    using parseToolArguments_repair [of "''{'a': 1}''" JSON_parse, THEN conjunct1]
    by (simp add: JSON_parse_single_quoted replaceSingleQuotes_example JSON_parse_object_a1)
  have b: "parseToolArguments JSON_parse ''not json'' = JObject []"
    using parseToolArguments_repair [of "''not json''" JSON_parse, THEN conjunct1]
    by (simp add: JSON_parse_not_json replaceSingleQuotes_not_json)
  have c: "parseToolArguments JSON_parse [] = JObject []"
    using parseToolArguments_repair [of "[]" JSON_parse, THEN conjunct1] ref
    by (simp add: replaceSingleQuotes_def)
  have "choices ?d = Some (?ch # []) \<and>
        resp_tool_calls (message ?ch) = Some
          [\<lparr>call_id = ''call_1'', call_type = ''function'',
            call_function = \<lparr>name = ''f'', arguments = ''not json''\<rparr>\<rparr>]"
    by simp
  with parseToolArguments_repair [of _ JSON_parse ?d ?ch "[]" _ "''msg_1''",
      THEN conjunct2, THEN conjunct1]
  have "response_content (convertNormalData JSON_parse ''msg_1'' ?d) =
      [Text ''Looking'', ToolUse ''call_1'' ''f'' (parseToolArguments JSON_parse ''not json'')]"
    by (simp add: truthyString_def)
  with a b c show ?thesis by simp
qed

text \<open>
  Claim C4. With at least one choice the stop reason is \<^verbatim>\<open>tool_use\<close> if a tool call was
  present, else \<^verbatim>\<open>max_tokens\<close> if the finish reason is \<^verbatim>\<open>length\<close>, else \<^verbatim>\<open>end_turn\<close>.
  The code tests the \<^verbatim>\<open>tool_calls\<close> field itself, and JavaScript takes an empty array for
  true: for a message with empty \<^verbatim>\<open>tool_calls\<close> and the finish reason \<^verbatim>\<open>length\<close> it answers
  \<^verbatim>\<open>tool_use\<close>, with no tool-use block in the content, where the claim says \<^verbatim>\<open>max_tokens\<close>.
  (The lemma \<open>convertNormalData_choice\<close> gives the stop reason for every response with a
  choice.)
\<close>

theorem convertNormalData_empty_tool_calls:
  "convertNormalData JSON_parse ''msg_1''
     \<lparr>choices = Some
        [\<lparr>message = \<lparr>resp_content = Some ''partial'', resp_tool_calls = Some []\<rparr>,
          finish_reason = Some ''length''\<rparr>],
      usage = None\<rparr>
   = \<lparr>response_id = ''msg_1'', response_type = ''message'', response_role = ''assistant'',
      response_content = [Text ''partial''], stop_reason = Some tool_use,
      response_usage = None\<rparr>"
  by (simp add: convertNormalData_def truthyString_def)

text \<open>
  Claim C10. For a response whose choices are absent or empty the canonical response has
  an empty content and no stop reason; the usage is copied when the provider gives one and
  absent otherwise; id, type and role are set as for every response.
\<close>

theorem convertNormalData_no_choices:
  "choices d = None \<or> choices d = Some [] \<Longrightarrow>
     response_content (convertNormalData parse gid d) = []
     \<and> stop_reason (convertNormalData parse gid d) = None
     \<and> response_usage (convertNormalData parse gid d) =
         map_option (\<lambda>u. \<lparr>input_tokens = prompt_tokens u, output_tokens = completion_tokens u\<rparr>)
           (usage d)
     \<and> response_id (convertNormalData parse gid d) = gid
     \<and> response_type (convertNormalData parse gid d) = ''message''
     \<and> response_role (convertNormalData parse gid d) = ''assistant''"
  by (auto simp: convertNormalData_def Let_def split: option.splits)

text \<open>The theorem at an empty list of choices with a usage, and at absent choices.\<close>

theorem convertNormalData_no_choices_witness:
  "convertNormalData JSON_parse ''msg_1''
     \<lparr>choices = Some [], usage = Some \<lparr>prompt_tokens = 12, completion_tokens = 0\<rparr>\<rparr>
   = \<lparr>response_id = ''msg_1'', response_type = ''message'', response_role = ''assistant'',
      response_content = [], stop_reason = None,
      response_usage = Some \<lparr>input_tokens = 12, output_tokens = 0\<rparr>\<rparr>
   \<and> stop_reason (convertNormalData JSON_parse ''msg_1'' \<lparr>choices = None, usage = None\<rparr>) = None"
proof -
  let ?d = "\<lparr>choices = Some [], usage = Some \<lparr>prompt_tokens = 12, completion_tokens = 0\<rparr>\<rparr>"
  let ?e = "\<lparr>choices = None, usage = None\<rparr> :: OpenAIResponse"
  have "choices ?d = None \<or> choices ?d = Some []" by simp
  from convertNormalData_no_choices [OF this, of JSON_parse "''msg_1''"]
  have first: "convertNormalData JSON_parse ''msg_1'' ?d
   = \<lparr>response_id = ''msg_1'', response_type = ''message'', response_role = ''assistant'',
      response_content = [], stop_reason = None,
      response_usage = Some \<lparr>input_tokens = 12, output_tokens = 0\<rparr>\<rparr>"
    by (cases "convertNormalData JSON_parse ''msg_1'' ?d") simp
  have "choices ?e = None \<or> choices ?e = Some []" by simp
  from convertNormalData_no_choices [OF this, of JSON_parse "''msg_1''"]
  have "stop_reason (convertNormalData JSON_parse ''msg_1'' ?e) = None" by simp
  with first show ?thesis by simp
qed

section \<open>Claim about the entry point\<close>

text \<open>
  Claim C7. A provider response whose status is not 2xx is returned as it is, with its
  status, headers and body, whatever the decoders of the runtime would make of it.
\<close>

theorem convertToClaudeResponse_relays_failure:
  "status r < 200 \<or> 299 < status r \<Longrightarrow> convertToClaudeResponse rt r = Inr (Whole r)"
  by (auto simp: convertToClaudeResponse_def ok_def)

text \<open>The theorem at a response with the status 429.\<close>

theorem convertToClaudeResponse_relays_failure_witness:
  "299 < status \<lparr>status = 429, headers = [(''content-type'', ''application/json'')],
          body = ''{\"error\":{\"message\":\"rate limited\"}}''\<rparr>
   \<and> (\<forall>rt. convertToClaudeResponse rt
          \<lparr>status = 429, headers = [(''content-type'', ''application/json'')],
           body = ''{\"error\":{\"message\":\"rate limited\"}}''\<rparr>
        = Inr (Whole \<lparr>status = 429, headers = [(''content-type'', ''application/json'')],
                      body = ''{\"error\":{\"message\":\"rate limited\"}}''\<rparr>))"
proof -
  let ?r = "\<lparr>status = 429, headers = [(''content-type'', ''application/json'')],
          body = ''{\"error\":{\"message\":\"rate limited\"}}''\<rparr>"
  have high: "299 < status ?r" by simp
  then have "status ?r < 200 \<or> 299 < status ?r" by (rule disjI2)
  from convertToClaudeResponse_relays_failure [OF this] high show ?thesis by blast
qed

section \<open>Facts about the stream translator\<close>

text \<open>
  The callback emits text events addressed to the indices from the text cursor on and
  tool events addressed to the indices from the tool cursor on, and returns the cursors
  moved past them.
\<close>

lemma upt_join: "i \<le> j \<Longrightarrow> j \<le> k \<Longrightarrow> [i..<j] @ [j..<k] = [i..<k]"
  by (metis le_add_diff_inverse upt_add_eq_append)

lemma convertToolCallDeltas_indices:
  "convertToolCallDeltas parse tcs (evs, i) = Inr (evs', j) \<Longrightarrow>
     \<exists>new. evs' = evs @ new \<and> concat (map textIndex new) = []
       \<and> concat (map toolIndex new) = [i..<j] \<and> i \<le> j"
proof (induction tcs arbitrary: evs i)
  case Nil
  then show ?case by simp
next
  case (Cons tc tcs)
  show ?case
  proof (cases "tc_function tc")
    case None
    with Cons show ?thesis by simp
  next
    case (Some f)
    show ?thesis
    proof (cases "truthyString (fn_name f)")
      case None
      with Some Cons show ?thesis by simp
    next
      case n: (Some n)
      show ?thesis
      proof (cases "truthyString (fn_arguments f)")
        case None
        with Some n Cons show ?thesis by simp
      next
        case a: (Some a)
        show ?thesis
        proof (cases "parse a")
          case None
          with Some n a Cons.prems show ?thesis by simp
        next
          case args: (Some args)
          with Some n a Cons.prems
          have "convertToolCallDeltas parse tcs
                  (evs @ processToolUsePart (n, args) i, i + 1) = Inr (evs', j)"
            by simp
          from Cons.IH [OF this] obtain new where
            new: "evs' = (evs @ processToolUsePart (n, args) i) @ new"
              "concat (map textIndex new) = []"
              "concat (map toolIndex new) = [i + 1..<j]" "i + 1 \<le> j"
            by blast
          have "concat (map toolIndex (processToolUsePart (n, args) i @ new)) = [i..<j]"
            using new(3,4) by (simp add: processToolUsePart_def upt_conv_Cons)
          moreover have "concat (map textIndex (processToolUsePart (n, args) i @ new)) = []"
            using new(2) by (simp add: processToolUsePart_def)
          ultimately show ?thesis using new(1,4)
            by (intro exI [of _ "processToolUsePart (n, args) i @ new"]) simp
        qed
      qed
    qed
  qed
qed

lemma convertStreamLine_indices:
  assumes "convertStreamLine parse d ti ui = Inr (Some r)"
  shows "concat (map textIndex (events r)) = [ti..<textBlockIndex r] \<and> ti \<le> textBlockIndex r
       \<and> concat (map toolIndex (events r)) = [ui..<toolUseBlockIndex r]
       \<and> ui \<le> toolUseBlockIndex r"
proof -
  from assms obtain choice rest where ch: "stream_choices d = Some (choice # rest)"
    by (auto simp: convertStreamLine_def split: option.splits list.splits)
  define evs where "evs = (case truthyString (delta_content (delta choice)) of
                   Some t \<Rightarrow> processTextPart t ti | None \<Rightarrow> [])"
  define k where "k = (case truthyString (delta_content (delta choice)) of
                   Some t \<Rightarrow> ti + 1 | None \<Rightarrow> ti)"
  have pair: "(case truthyString (delta_content (delta choice)) of
                   Some t \<Rightarrow> (processTextPart t ti, ti + 1)
                 | None \<Rightarrow> ([], ti)) = (evs, k)"
    by (simp add: evs_def k_def split: option.splits)
  have te: "concat (map textIndex evs) = [ti..<k]" "ti \<le> k" "concat (map toolIndex evs) = []"
    by (auto simp: evs_def k_def processTextPart_def split: option.splits)
  show ?thesis
  proof (cases "delta_tool_calls (delta choice)")
    case None
    with assms ch pair have "r = \<lparr>events = evs, textBlockIndex = k, toolUseBlockIndex = ui\<rparr>"
      by (simp add: convertStreamLine_def)
    with te show ?thesis by simp
  next
    case (Some tcs)
    with assms ch pair obtain evs' j where
      run: "convertToolCallDeltas parse tcs (evs, ui) = Inr (evs', j)"
      and r: "r = \<lparr>events = evs', textBlockIndex = k, toolUseBlockIndex = j\<rparr>"
      by (auto simp: convertStreamLine_def split: sum.splits)
    from convertToolCallDeltas_indices [OF run] obtain new where
      "evs' = evs @ new" "concat (map textIndex new) = []"
      "concat (map toolIndex new) = [ui..<j]" "ui \<le> j"
      by blast
    with te r show ?thesis by simp
  qed
qed

text \<open>
  The driver passes through the frames from left to right: a run over a longer stream
  continues the run over its beginning, and only adds events.
\<close>

lemma processLines_failed: "failure st = Some e \<Longrightarrow> processLines processLine st frames = st"
  by (cases frames) simp_all

lemma processLines_append:
  "processLines processLine st (frames @ later) =
     processLines processLine (processLines processLine st frames) later"
proof (induction frames arbitrary: st)
  case Nil
  then show ?case by simp
next
  case (Cons f fs)
  show ?case
  proof (cases "failure st")
    case (Some e)
    then show ?thesis by (simp add: processLines_failed)
  next
    case None
    then show ?thesis
      by (cases "processLine f (text_block_index st) (tool_block_index st)")
         (auto simp: Cons.IH processLines_failed split: option.splits)
  qed
qed

lemma processLines_prefix:
  "prefix (emitted st) (emitted (processLines processLine st frames))"
proof (induction frames arbitrary: st)
  case Nil
  then show ?case by simp
next
  case (Cons f fs)
  show ?case
  proof (cases "failure st")
    case (Some e)
    then show ?thesis by simp
  next
    case None
    show ?thesis
    proof (cases "processLine f (text_block_index st) (tool_block_index st)")
      case (Inl e)
      with None show ?thesis by simp
    next
      case (Inr res)
      show ?thesis
      proof (cases res)
        case None': None
        with None Inr Cons.IH [of st] show ?thesis by simp
      next
        case (Some result)
        let ?st' = "\<lparr>emitted = emitted st @ events result,
                 text_block_index = textBlockIndex result,
                 tool_block_index = toolUseBlockIndex result,
                 failure = None\<rparr>"
        have "prefix (emitted st) (emitted ?st')" by simp
        with Cons.IH [of ?st'] have "prefix (emitted st) (emitted (processLines processLine ?st' fs))"
          using prefix_order.trans by blast
        with None Inr Some show ?thesis by simp
      qed
    qed
  qed
qed

lemma processLines_indices:
  assumes "concat (map textIndex (emitted st)) = [0..<text_block_index st]"
    and "concat (map toolIndex (emitted st)) = [0..<tool_block_index st]"
  shows "concat (map textIndex (emitted (processLines (convertStreamLine parse) st frames)))
           = [0..<text_block_index (processLines (convertStreamLine parse) st frames)]
       \<and> concat (map toolIndex (emitted (processLines (convertStreamLine parse) st frames)))
           = [0..<tool_block_index (processLines (convertStreamLine parse) st frames)]
       \<and> text_block_index st \<le> text_block_index (processLines (convertStreamLine parse) st frames)
       \<and> tool_block_index st \<le> tool_block_index (processLines (convertStreamLine parse) st frames)"
  using assms
proof (induction frames arbitrary: st)
  case Nil
  then show ?case by simp
next
  case (Cons f fs)
  show ?case
  proof (cases "failure st")
    case (Some e)
    with Cons.prems show ?thesis by simp
  next
    case None
    show ?thesis
    proof (cases "convertStreamLine parse f (text_block_index st) (tool_block_index st)")
      case (Inl e)
      with None Cons.prems show ?thesis by simp
    next
      case (Inr res)
      show ?thesis
      proof (cases res)
        case None': None
        with None Inr Cons.IH [OF Cons.prems] show ?thesis by simp
      next
        case (Some result)
        let ?st' = "\<lparr>emitted = emitted st @ events result,
                 text_block_index = textBlockIndex result,
                 tool_block_index = toolUseBlockIndex result,
                 failure = None\<rparr>"
        from Inr Some have "convertStreamLine parse f (text_block_index st) (tool_block_index st)
            = Inr (Some result)" by simp
        note step = convertStreamLine_indices [OF this]
        have a: "concat (map textIndex (emitted ?st')) = [0..<text_block_index ?st']"
          using Cons.prems(1) step by (simp add: upt_join)
        have b: "concat (map toolIndex (emitted ?st')) = [0..<tool_block_index ?st']"
          using Cons.prems(2) step by (simp add: upt_join)
        from Cons.IH [OF a b] step None Inr Some show ?thesis by simp
      qed
    qed
  qed
qed

section \<open>Claims about the stream translator\<close>

text \<open>
  Claim C3. For every sequence of frames, the text events emitted are addressed to the
  indices 0, 1, 2, ... in the order of emission, up to the text block index reached, and
  the tool events likewise up to the tool block index reached: each index is used once and
  the cursor moves by one after each event. The events of a stream's first frames are
  emitted before those of its later frames: the run over a longer stream continues the
  run over its beginning, keeps its events as a prefix and never moves a cursor back. For
  the frames of a text delta \<^verbatim>\<open>Hi\<close> and a tool call \<^verbatim>\<open>f\<close> with the arguments \<^verbatim>\<open>{}\<close>, with
  or without a closing frame, the text delta is addressed to text index 0, the tool delta
  to tool index 0, and the text delta comes first.
\<close>

theorem convertStreamFrames_indices_in_order:
  "concat (map textIndex (emitted (convertStreamFrames parse frames)))
     = [0..<text_block_index (convertStreamFrames parse frames)]
   \<and> concat (map toolIndex (emitted (convertStreamFrames parse frames)))
     = [0..<tool_block_index (convertStreamFrames parse frames)]
   \<and> convertStreamFrames parse (frames @ later)
     = processLines (convertStreamLine parse) (convertStreamFrames parse frames) later
   \<and> prefix (emitted (convertStreamFrames parse frames))
        (emitted (convertStreamFrames parse (frames @ later)))
   \<and> text_block_index (convertStreamFrames parse frames)
        \<le> text_block_index (convertStreamFrames parse (frames @ later))
   \<and> tool_block_index (convertStreamFrames parse frames)
        \<le> tool_block_index (convertStreamFrames parse (frames @ later))
   \<and> convertStreamFrames JSON_parse
       [\<lparr>stream_choices = Some
           [\<lparr>delta = \<lparr>delta_content = Some ''Hi'', delta_tool_calls = None\<rparr>\<rparr>]\<rparr>,
        \<lparr>stream_choices = Some
           [\<lparr>delta = \<lparr>delta_content = None,
                      delta_tool_calls = Some
                        [\<lparr>tc_function = Some
                            \<lparr>fn_name = Some ''f'', fn_arguments = Some ''{}''\<rparr>\<rparr>]\<rparr>\<rparr>]\<rparr>]
     = \<lparr>emitted = [TextDelta 0 ''Hi'', ToolUseDelta 0 ''f'' (JObject [])],
        text_block_index = 1, tool_block_index = 1, failure = None\<rparr>
   \<and> convertStreamFrames JSON_parse
       [\<lparr>stream_choices = Some
           [\<lparr>delta = \<lparr>delta_content = Some ''Hi'', delta_tool_calls = None\<rparr>\<rparr>]\<rparr>,
        \<lparr>stream_choices = Some
           [\<lparr>delta = \<lparr>delta_content = None,
                      delta_tool_calls = Some
                        [\<lparr>tc_function = Some
                            \<lparr>fn_name = Some ''f'', fn_arguments = Some ''{}''\<rparr>\<rparr>]\<rparr>\<rparr>]\<rparr>,
        \<lparr>stream_choices = Some
           [\<lparr>delta = \<lparr>delta_content = None, delta_tool_calls = None\<rparr>\<rparr>]\<rparr>]
     = \<lparr>emitted = [TextDelta 0 ''Hi'', ToolUseDelta 0 ''f'' (JObject [])],
        text_block_index = 1, tool_block_index = 1, failure = None\<rparr>"
proof -
  let ?run = "\<lambda>fs. convertStreamFrames parse fs"
  let ?st0 = "\<lparr>emitted = [], text_block_index = 0, tool_block_index = 0, failure = None\<rparr>"
  have init: "concat (map textIndex (emitted ?st0)) = [0..<text_block_index ?st0]"
    "concat (map toolIndex (emitted ?st0)) = [0..<tool_block_index ?st0]"
    by simp_all
  have run: "?run fs = processLines (convertStreamLine parse) ?st0 fs" for fs
    by (simp add: convertStreamFrames_def processProviderStream_def)
  have idx: "concat (map textIndex (emitted (?run frames))) = [0..<text_block_index (?run frames)]"
    "concat (map toolIndex (emitted (?run frames))) = [0..<tool_block_index (?run frames)]"
    unfolding run using processLines_indices [OF init, of parse frames] by simp_all
  have app: "?run (frames @ later) = processLines (convertStreamLine parse) (?run frames) later"
    unfolding run by (rule processLines_append)
  have pre: "prefix (emitted (?run frames)) (emitted (?run (frames @ later)))"
    unfolding app by (rule processLines_prefix)
  have mono: "text_block_index (?run frames) \<le> text_block_index (?run (frames @ later))"
    "tool_block_index (?run frames) \<le> tool_block_index (?run (frames @ later))"
    unfolding app using processLines_indices [OF idx, of parse later] by simp_all
  have ex1: "convertStreamFrames JSON_parse
       [\<lparr>stream_choices = Some
           [\<lparr>delta = \<lparr>delta_content = Some ''Hi'', delta_tool_calls = None\<rparr>\<rparr>]\<rparr>,
        \<lparr>stream_choices = Some
           [\<lparr>delta = \<lparr>delta_content = None,
                      delta_tool_calls = Some
                        [\<lparr>tc_function = Some
                            \<lparr>fn_name = Some ''f'', fn_arguments = Some ''{}''\<rparr>\<rparr>]\<rparr>\<rparr>]\<rparr>]
     = \<lparr>emitted = [TextDelta 0 ''Hi'', ToolUseDelta 0 ''f'' (JObject [])],
        text_block_index = 1, tool_block_index = 1, failure = None\<rparr>"
    by (simp add: convertStreamFrames_def processProviderStream_def convertStreamLine_def
        truthyString_def processTextPart_def processToolUsePart_def JSON_parse_empty_object)
  have ex2: "convertStreamFrames JSON_parse
       [\<lparr>stream_choices = Some
           [\<lparr>delta = \<lparr>delta_content = Some ''Hi'', delta_tool_calls = None\<rparr>\<rparr>]\<rparr>,
        \<lparr>stream_choices = Some
           [\<lparr>delta = \<lparr>delta_content = None,
                      delta_tool_calls = Some
                        [\<lparr>tc_function = Some
                            \<lparr>fn_name = Some ''f'', fn_arguments = Some ''{}''\<rparr>\<rparr>]\<rparr>\<rparr>]\<rparr>,
        \<lparr>stream_choices = Some
           [\<lparr>delta = \<lparr>delta_content = None, delta_tool_calls = None\<rparr>\<rparr>]\<rparr>]
     = \<lparr>emitted = [TextDelta 0 ''Hi'', ToolUseDelta 0 ''f'' (JObject [])],
        text_block_index = 1, tool_block_index = 1, failure = None\<rparr>"
    by (simp add: convertStreamFrames_def processProviderStream_def convertStreamLine_def
        truthyString_def processTextPart_def processToolUsePart_def JSON_parse_empty_object)
  from idx app pre mono ex1 ex2 show ?thesis by blast
qed

text \<open>
  Claim C5. A tool call whose arguments are not JSON, even after repair, gets the empty
  object as its input and never makes the translation fail, in the streaming path as in
  the other. The callback of the streaming path parses the arguments in no \<^verbatim>\<open>try\<close> block:
  for a frame with a text delta and a tool call \<^verbatim>\<open>f\<close> with the arguments \<^verbatim>\<open>not json\<close> it
  throws, and returns neither the tool-use event nor the text event of the frame. The
  non-streaming path decodes the same arguments to the empty object.
\<close>

theorem convertStreamLine_throws_on_bad_arguments:
  "convertStreamLine JSON_parse
     \<lparr>stream_choices = Some
        [\<lparr>delta = \<lparr>delta_content = Some ''Hi'',
                   delta_tool_calls = Some
                     [\<lparr>tc_function = Some
                         \<lparr>fn_name = Some ''f'', fn_arguments = Some ''not json''\<rparr>\<rparr>]\<rparr>\<rparr>]\<rparr>
     0 0
   = Inl SyntaxError
   \<and> parseToolArguments JSON_parse ''not json'' = JObject []"
  by (simp add: convertStreamLine_def truthyString_def processTextPart_def
      JSON_parse_not_json parseToolArguments_def replaceSingleQuotes_not_json)

end
